theory Spec2Isabelle
  imports Complex_Main
begin

section \<open>JavaScript values used by the front end\<close>

text \<open>
  A JavaScript number is a finite value, NaN or one of the two infinities. Finite values
  are carried exactly (\<open>int\<close> for the month arithmetic, \<open>real\<close> for amounts and
  percentages); rounding of doubles and the sign of zero are not represented.
\<close>

datatype 'a number = Num 'a | NaN | PosInf | NegInf

fun js_add :: "('a::plus) number \<Rightarrow> 'a number \<Rightarrow> 'a number" where
  "js_add (Num a) (Num b) = Num (a + b)"
| "js_add NaN _ = NaN"
| "js_add _ NaN = NaN"
| "js_add PosInf NegInf = NaN"
| "js_add NegInf PosInf = NaN"
| "js_add PosInf _ = PosInf"
| "js_add _ PosInf = PosInf"
| "js_add NegInf _ = NegInf"
| "js_add _ NegInf = NegInf"

fun js_lt :: "('a::ord) number \<Rightarrow> 'a number \<Rightarrow> bool" where
  "js_lt (Num a) (Num b) = (a < b)"
| "js_lt NaN _ = False"
| "js_lt _ NaN = False"
| "js_lt _ NegInf = False"
| "js_lt NegInf _ = True"
| "js_lt PosInf _ = False"
| "js_lt _ PosInf = True"

definition js_gt :: "('a::ord) number \<Rightarrow> 'a number \<Rightarrow> bool" where
  "js_gt x y = js_lt y x"

fun js_le :: "('a::ord) number \<Rightarrow> 'a number \<Rightarrow> bool" where
  "js_le (Num a) (Num b) = (a \<le> b)"
| "js_le NaN _ = False"
| "js_le _ NaN = False"
| "js_le NegInf _ = True"
| "js_le _ NegInf = False"
| "js_le _ PosInf = True"
| "js_le PosInf _ = False"

definition js_ge :: "('a::ord) number \<Rightarrow> 'a number \<Rightarrow> bool" where
  "js_ge x y = js_le y x"

subsection \<open>Decimal strings\<close>

definition digit_chars :: string where
  "digit_chars = ''0123456789''"

definition is_digit :: "char \<Rightarrow> bool" where
  "is_digit c = (c \<in> set digit_chars)"

definition digit_of :: "nat \<Rightarrow> char" where
  "digit_of n = digit_chars ! n"

definition digit_val :: "char \<Rightarrow> nat" where
  "digit_val c = of_char c - 48"

text \<open>The value of a string of decimal digits, most significant digit first.\<close>

definition dec_value :: "string \<Rightarrow> nat" where
  "dec_value s = foldl (\<lambda>acc c. 10 * acc + digit_val c) 0 s"

fun dec_digits :: "nat \<Rightarrow> string" where
  "dec_digits n = (if n < 10 then [digit_of n] else dec_digits (n div 10) @ [digit_of (n mod 10)])"

declare dec_digits.simps [simp del]

text \<open>
  \<open>String(x)\<close> and template-literal interpolation of a number. Integers of magnitude
  below \<open>10^21\<close> print in plain decimal notation.
\<close>

fun String_js :: "int number \<Rightarrow> string" where
  "String_js (Num n) = (if n < 0 then CHR ''-'' # dec_digits (nat (- n)) else dec_digits (nat n))"
| "String_js NaN = ''NaN''"
| "String_js PosInf = ''Infinity''"
| "String_js NegInf = ''-Infinity''"

text \<open>
  \<open>Number(s)\<close> on the fragment the month tokens live in: the empty string is 0 and a
  string of at most 15 decimal digits is its value (exact as a double). On any other
  string the result is \<open>None\<close>: that input lies outside the modelled fragment.
\<close>

definition Number_js :: "string \<Rightarrow> int number option" where
  "Number_js s =
     (if s = [] then Some (Num 0)
      else if list_all is_digit s \<and> length s \<le> 15 then Some (Num (int (dec_value s)))
      else None)"

text \<open>\<open>s.padStart(n, c)\<close> for a one-character filler.\<close>

definition padStart :: "nat \<Rightarrow> char \<Rightarrow> string \<Rightarrow> string" where
  "padStart n c s = replicate (n - length s) c @ s"

text \<open>\<open>s.split(c)\<close> for a one-character separator; the result is never empty.\<close>

fun split_js :: "char \<Rightarrow> string \<Rightarrow> string list" where
  "split_js c [] = [[]]"
| "split_js c (x # xs) =
     (if x = c then [] # split_js c xs
      else (case split_js c xs of [] \<Rightarrow> [[x]] | p # ps \<Rightarrow> (x # p) # ps))"

section \<open>Month-period arithmetic (Dashboard.jsx, Budgets page, constants.js)\<close>

text \<open>The template literal \<open>`${year}-${String(mon).padStart(2, '0')}`\<close>.\<close>

definition month_template :: "int number \<Rightarrow> int number \<Rightarrow> string" where
  "month_template y m = String_js y @ ''-'' @ padStart 2 (CHR ''0'') (String_js m)"

text \<open>
  \<open>getCurrentMonth\<close>, given what \<open>now.getFullYear()\<close> and \<open>now.getMonth()\<close> return.
\<close>

definition getCurrentMonth :: "int \<Rightarrow> int \<Rightarrow> string" where
  "getCurrentMonth fullYear monthIndex = month_template (Num fullYear) (Num (monthIndex + 1))"

text \<open>
  \<open>changeMonth(delta)\<close> reads the \<open>month\<close> state and stores the new token; the model
  takes the state and returns the stored token, or \<open>None\<close> when a part of the state
  lies outside the modelled fragment of \<open>Number\<close>. The array destructuring
  \<open>[year, mon]\<close> takes the first two parts. \<open>split\<close> yields at least one part, so
  \<open>year\<close> is always there; a missing second part is \<open>undefined\<close>, and
  \<open>undefined + delta\<close> is NaN. The function has the same text in Dashboard.jsx and in
  the Budgets page.
\<close>

definition changeMonth :: "int \<Rightarrow> string \<Rightarrow> string option" where
  "changeMonth delta month =
     (case those (map Number_js (split_js (CHR ''-'') month)) of
        None \<Rightarrow> None
      | Some [] \<Rightarrow> None
      | Some (year # rest) \<Rightarrow>
          (let newMonth = (case rest of [] \<Rightarrow> NaN | mon # _ \<Rightarrow> js_add mon (Num delta));
               newYear = year
           in if js_gt newMonth (Num 12) then
                Some (month_template (js_add newYear (Num 1)) (Num 1))
              else if js_lt newMonth (Num 1) then
                Some (month_template (js_add newYear (Num (- 1))) (Num 12))
              else Some (month_template newYear newMonth)))"

text \<open>
  A month token in the sense of the specification: four digits, a dash, two digits
  whose value lies between 1 and 12.
\<close>

definition is_month_token :: "string \<Rightarrow> bool" where
  "is_month_token s =
     (length s = 7 \<and> list_all is_digit (take 4 s) \<and> s ! 4 = CHR ''-'' \<and>
      list_all is_digit (drop 5 s) \<and> 1 \<le> dec_value (drop 5 s) \<and> dec_value (drop 5 s) \<le> 12)"

definition year_of :: "string \<Rightarrow> int" where
  "year_of s = int (dec_value (take 4 s))"

definition month_of :: "string \<Rightarrow> int" where
  "month_of s = int (dec_value (drop 5 s))"

section \<open>Categories (constants.js)\<close>

text \<open>
  The entries of \<open>CATEGORIES\<close>. The field \<open>value\<close> of the source is \<open>value'\<close> here.
  The icons are the UTF-8 bytes of the emoji of the source.
\<close>

record category_info =
  value' :: string
  label :: string
  icon :: string
  color :: string

definition CATEGORIES :: "category_info list" where
  "CATEGORIES =
     [\<lparr>value' = ''Food'', label = ''Food'',
        icon = [CHR 0xF0, CHR 0x9F, CHR 0x8D, CHR 0x94], color = ''#ef4444''\<rparr>,
      \<lparr>value' = ''Transport'', label = ''Transport'',
        icon = [CHR 0xF0, CHR 0x9F, CHR 0x9A, CHR 0x97], color = ''#f59e0b''\<rparr>,
      \<lparr>value' = ''Entertainment'', label = ''Entertainment'',
        icon = [CHR 0xF0, CHR 0x9F, CHR 0x8E, CHR 0xAC], color = ''#8b5cf6''\<rparr>,
      \<lparr>value' = ''Bills'', label = ''Bills'',
        icon = [CHR 0xF0, CHR 0x9F, CHR 0x93, CHR 0x84], color = ''#3b82f6''\<rparr>,
      \<lparr>value' = ''Shopping'', label = ''Shopping'',
        icon = [CHR 0xF0, CHR 0x9F, CHR 0x9B, CHR 0x8D, CHR 0xEF, CHR 0xB8, CHR 0x8F],
        color = ''#ec4899''\<rparr>,
      \<lparr>value' = ''Health'', label = ''Health'',
        icon = [CHR 0xF0, CHR 0x9F, CHR 0x92, CHR 0x8A], color = ''#10b981''\<rparr>,
      \<lparr>value' = ''Education'', label = ''Education'',
        icon = [CHR 0xF0, CHR 0x9F, CHR 0x93, CHR 0x9A], color = ''#06b6d4''\<rparr>,
      \<lparr>value' = ''Other'', label = ''Other'',
        icon = [CHR 0xF0, CHR 0x9F, CHR 0x93, CHR 0xA6], color = ''#6b7280''\<rparr>]"

text \<open>
  \<open>CATEGORIES.find(c => c.value === category) || CATEGORIES[CATEGORIES.length - 1]\<close>.
  A found element is an object, hence truthy; only a failed search reaches the right
  operand.
\<close>

definition getCategoryInfo :: "string \<Rightarrow> category_info" where
  "getCategoryInfo category =
     (case find (\<lambda>c. value' c = category) CATEGORIES of
        Some c \<Rightarrow> c
      | None \<Rightarrow> CATEGORIES ! (length CATEGORIES - 1))"

section \<open>Arithmetic on amounts and percentages\<close>

fun js_div :: "real number \<Rightarrow> real number \<Rightarrow> real number" where
  "js_div NaN _ = NaN"
| "js_div _ NaN = NaN"
| "js_div (Num a) (Num b) =
     (if b \<noteq> 0 then Num (a / b) else if 0 < a then PosInf else if a < 0 then NegInf else NaN)"
| "js_div (Num a) _ = Num 0"
| "js_div PosInf (Num b) = (if 0 \<le> b then PosInf else NegInf)"
| "js_div NegInf (Num b) = (if 0 \<le> b then NegInf else PosInf)"
| "js_div _ _ = NaN"

fun js_mul :: "real number \<Rightarrow> real number \<Rightarrow> real number" where
  "js_mul NaN _ = NaN"
| "js_mul _ NaN = NaN"
| "js_mul (Num a) (Num b) = Num (a * b)"
| "js_mul (Num a) PosInf = (if 0 < a then PosInf else if a < 0 then NegInf else NaN)"
| "js_mul (Num a) NegInf = (if 0 < a then NegInf else if a < 0 then PosInf else NaN)"
| "js_mul PosInf (Num b) = (if 0 < b then PosInf else if b < 0 then NegInf else NaN)"
| "js_mul NegInf (Num b) = (if 0 < b then NegInf else if b < 0 then PosInf else NaN)"
| "js_mul PosInf PosInf = PosInf"
| "js_mul NegInf NegInf = PosInf"
| "js_mul _ _ = NegInf"

text \<open>\<open>Math.min(x, y)\<close>.\<close>

fun js_min :: "real number \<Rightarrow> real number \<Rightarrow> real number" where
  "js_min NaN _ = NaN"
| "js_min _ NaN = NaN"
| "js_min NegInf _ = NegInf"
| "js_min _ NegInf = NegInf"
| "js_min PosInf y = y"
| "js_min x PosInf = x"
| "js_min (Num a) (Num b) = Num (min a b)"

text \<open>\<open>x || y\<close> on numbers: NaN and 0 are falsy.\<close>

definition js_or :: "real number \<Rightarrow> real number \<Rightarrow> real number" where
  "js_or x y = (if x = NaN \<or> x = Num 0 then y else x)"

section \<open>Budget status (Budgets page)\<close>

type_synonym uuid = string

text \<open>A budget as the page receives it from \<open>api.getBudgets\<close>.\<close>

record budget =
  id :: uuid
  category :: string
  amount :: real
  spent :: real
  remaining :: real
  percentage_used :: "real number"

definition getBudgetStatus :: "budget \<Rightarrow> string" where
  "getBudgetStatus budget =
     (if js_ge (percentage_used budget) (Num 100) then ''exceeded''
      else if js_ge (percentage_used budget) (Num 80) then ''warning''
      else ''ok'')"

text \<open>
  Modelled from the spec: the percentage that the alert computation of the API server
  (not among the sources) attaches to a budget, \<open>percentage_used = spent / amount \<times> 100\<close>.
\<close>

definition percentage_of :: "real \<Rightarrow> real \<Rightarrow> real number" where
  "percentage_of spent_amount budget_amount =
     js_mul (js_div (Num spent_amount) (Num budget_amount)) (Num 100)"

text \<open>
  \<open>usedCategories\<close> and \<open>availableCategories\<close> of the Budgets page;
  \<open>editingBudget?.category === c.value\<close> is false when no budget is being edited.
\<close>

definition usedCategories :: "budget list \<Rightarrow> string list" where
  "usedCategories budgets = map category budgets"

definition availableCategories :: "budget list \<Rightarrow> budget option \<Rightarrow> category_info list" where
  "availableCategories budgets editingBudget =
     filter (\<lambda>c. value' c \<notin> set (usedCategories budgets) \<or>
                 (case editingBudget of None \<Rightarrow> False | Some b \<Rightarrow> category b = value' c))
       CATEGORIES"

section \<open>Percentage of the total budget (Dashboard.jsx, Budgets page)\<close>

record dashboard_data =
  total_spent_this_month :: real
  total_budget_this_month :: real

text \<open>
  \<open>budgetPercentage\<close> of the dashboard; \<open>data\<close> may still be null, and then
  \<open>data?.total_budget_this_month > 0\<close> is false.
\<close>

definition budgetPercentage :: "dashboard_data option \<Rightarrow> real number" where
  "budgetPercentage data =
     (case data of
        None \<Rightarrow> Num 0
      | Some d \<Rightarrow>
          if js_gt (Num (total_budget_this_month d)) (Num 0)
          then js_mul (js_div (Num (total_spent_this_month d)) (Num (total_budget_this_month d)))
                 (Num 100)
          else Num 0)"

text \<open>The width of the dashboard's progress bar: \<open>Math.min(budgetPercentage, 100)\<close>.\<close>

definition Dashboard_barWidth :: "dashboard_data option \<Rightarrow> real number" where
  "Dashboard_barWidth data = js_min (budgetPercentage data) (Num 100)"

text \<open>
  What the summary card of the Budgets page renders. \<open>ToFixed k x\<close> stands for the
  string \<open>x.toFixed(k)\<close>, \<open>Plain x\<close> for the number \<open>x\<close> rendered as it is.
\<close>

datatype rendered = ToFixed nat "real number" | Plain "real number"

definition Budgets_percentUsed :: "real \<Rightarrow> real \<Rightarrow> rendered" where
  "Budgets_percentUsed totalBudget totalSpent =
     (if js_gt (Num totalBudget) (Num 0)
      then ToFixed 0 (js_mul (js_div (Num totalSpent) (Num totalBudget)) (Num 100))
      else Plain (Num 0))"

text \<open>The width of the progress bar: \<open>Math.min((totalSpent / totalBudget) * 100 || 0, 100)\<close>.\<close>

definition Budgets_barWidth :: "real \<Rightarrow> real \<Rightarrow> real number" where
  "Budgets_barWidth totalBudget totalSpent =
     js_min (js_or (js_mul (js_div (Num totalSpent) (Num totalBudget)) (Num 100)) (Num 0))
       (Num 100)"

section \<open>Form submission (Budgets page, Expenses.jsx)\<close>

text \<open>
  A handler is modelled by the sequence of effects it performs, in order. The calls of
  the API client are effects, so a trace without an \<open>api\<close> entry sent no request.
\<close>

datatype expense_payload = Payload "real number" string "string option" string
  \<comment> \<open>amount, category, description (or null), date\<close>

datatype api_call =
    api_updateBudget uuid "real number"
  | api_createBudget string "real number" string
  | api_updateExpense uuid expense_payload
  | api_createExpense expense_payload

datatype effect =
    preventDefault
  | toast_error string
  | toast_success string
  | setSubmitting bool
  | api api_call
  | closeModal
  | fetchBudgets
  | fetchExpenses

definition is_api :: "effect \<Rightarrow> bool" where
  "is_api e = (case e of api _ \<Rightarrow> True | _ \<Rightarrow> False)"

record Budgets_formData =
  category :: string
  amount :: string

record Budgets_state =
  month :: string
  editingBudget :: "budget option"
  formData :: Budgets_formData

text \<open>
  \<open>handleSubmit\<close> of the Budgets page. \<open>parseFloat\<close> is the JavaScript built-in and
  \<open>respond\<close> the outcome of the request: \<open>None\<close> when it resolves, \<open>Some msg\<close> when
  it rejects with an error whose message is \<open>msg\<close>. \<open>!formData.amount\<close> holds exactly
  for the empty string.
\<close>

definition Budgets_handleSubmit ::
  "(string \<Rightarrow> real number) \<Rightarrow> (api_call \<Rightarrow> string option) \<Rightarrow> Budgets_state \<Rightarrow> effect list" where
  "Budgets_handleSubmit parseFloat respond st =
     (let fd = formData st in
      if Budgets_formData.amount fd = [] \<or>
         js_le (parseFloat (Budgets_formData.amount fd)) (Num 0)
      then [preventDefault, toast_error ''Please enter a valid amount'']
      else
        let call =
          (case editingBudget st of
             Some b \<Rightarrow> api_updateBudget (budget.id b) (parseFloat (Budgets_formData.amount fd))
           | None \<Rightarrow>
               api_createBudget (Budgets_formData.category fd)
                 (parseFloat (Budgets_formData.amount fd)) (month st))
        in [preventDefault, setSubmitting True, api call] @
           (case respond call of
              None \<Rightarrow>
                [toast_success
                   (case editingBudget st of
                      Some _ \<Rightarrow> ''Budget updated'' | None \<Rightarrow> ''Budget created''),
                 closeModal, fetchBudgets]
            | Some msg \<Rightarrow> [toast_error (if msg = [] then ''Failed to save budget'' else msg)]) @
           [setSubmitting False])"

text \<open>An expense as the Expenses page receives it from \<open>api.getExpenses\<close>.\<close>

record expense =
  id :: uuid
  amount :: real
  category :: string
  description :: "string option"
  date :: string

record Expenses_formData =
  amount :: string
  category :: string
  description :: string
  date :: string

record Expenses_state =
  editingExpense :: "expense option"
  formData :: Expenses_formData

text \<open>
  \<open>handleSubmit\<close> of the Expenses page; \<open>formData.description || null\<close> is null for the
  empty string.
\<close>

definition Expenses_handleSubmit ::
  "(string \<Rightarrow> real number) \<Rightarrow> (api_call \<Rightarrow> string option) \<Rightarrow> Expenses_state \<Rightarrow> effect list" where
  "Expenses_handleSubmit parseFloat respond st =
     (let fd = Expenses_state.formData st in
      if Expenses_formData.amount fd = [] \<or>
         js_le (parseFloat (Expenses_formData.amount fd)) (Num 0)
      then [preventDefault, toast_error ''Please enter a valid amount'']
      else
        let payload =
              Payload (parseFloat (Expenses_formData.amount fd)) (Expenses_formData.category fd)
                (if Expenses_formData.description fd = [] then None
                 else Some (Expenses_formData.description fd))
                (Expenses_formData.date fd);
            call =
              (case editingExpense st of
                 Some e \<Rightarrow> api_updateExpense (expense.id e) payload
               | None \<Rightarrow> api_createExpense payload)
        in [preventDefault, setSubmitting True, api call] @
           (case respond call of
              None \<Rightarrow>
                [toast_success
                   (case editingExpense st of
                      Some _ \<Rightarrow> ''Expense updated'' | None \<Rightarrow> ''Expense added''),
                 closeModal, fetchExpenses]
            | Some msg \<Rightarrow> [toast_error (if msg = [] then ''Failed to save expense'' else msg)]) @
           [setSubmitting False])"

section \<open>Period total (Expenses.jsx)\<close>

text \<open>
  \<open>expenses.reduce((sum, e) => sum + e.amount, 0)\<close>. The amounts are doubles, and
  \<open>+\<close> on doubles rounds its result; that addition is the parameter \<open>add\<close>, about
  which nothing is assumed.
\<close>

definition totalAmount :: "(real \<Rightarrow> real \<Rightarrow> real) \<Rightarrow> expense list \<Rightarrow> real" where
  "totalAmount add expenses = foldl (\<lambda>sum e. add sum (expense.amount e)) 0 expenses"

section \<open>API client\<close>









section \<open>The data store (schema.sql)\<close>

text \<open>
  The two tables. Every column is \<open>NOT NULL\<close> except \<open>description\<close> and
  \<open>created_at\<close>. A \<open>DECIMAL(12, 2)\<close> amount is held as its number of hundredths,
  a \<open>DATE\<close> as its ISO text \<open>YYYY-MM-DD\<close>, a timestamp as a number. A row that is
  inserted carries its \<open>id\<close>, given by the statement or generated by the default.
\<close>

record row =
  id :: uuid
  user_id :: uuid

record expenses_row = row +
  amount :: int
  category :: string
  description :: "string option"
  date :: string
  created_at :: "nat option"

record budgets_row = row +
  category :: string
  amount :: int
  month :: string
  created_at :: "nat option"

record database =
  users :: "uuid list"  \<comment> \<open>the keys of \<open>auth.users\<close>\<close>
  expenses :: "expenses_row list"
  budgets :: "budgets_row list"

datatype command = SELECT | INSERT | UPDATE | DELETE

datatype db_error =
    string_data_right_truncation
  | numeric_value_out_of_range
  | insufficient_privilege
  | check_violation
  | unique_violation
  | foreign_key_violation

text \<open>
  The row-level security policies. \<open>auth.uid()\<close> is the identity of the caller, null
  (\<open>None\<close>) when there is none, and \<open>auth.uid() = user_id\<close> is then not true.
\<close>

fun expenses_policy :: "command \<Rightarrow> uuid option \<Rightarrow> expenses_row \<Rightarrow> bool" where
  "expenses_policy SELECT auth_uid r = (auth_uid = Some (user_id r))"
| "expenses_policy INSERT auth_uid r = (auth_uid = Some (user_id r))"
| "expenses_policy UPDATE auth_uid r = (auth_uid = Some (user_id r))"
| "expenses_policy DELETE auth_uid r = (auth_uid = Some (user_id r))"

fun budgets_policy :: "command \<Rightarrow> uuid option \<Rightarrow> budgets_row \<Rightarrow> bool" where
  "budgets_policy SELECT auth_uid r = (auth_uid = Some (user_id r))"
| "budgets_policy INSERT auth_uid r = (auth_uid = Some (user_id r))"
| "budgets_policy UPDATE auth_uid r = (auth_uid = Some (user_id r))"
| "budgets_policy DELETE auth_uid r = (auth_uid = Some (user_id r))"

text \<open>Values that do not fit \<open>VARCHAR(n)\<close> or \<open>DECIMAL(12, 2)\<close>.\<close>

definition expenses_coerce :: "expenses_row \<Rightarrow> db_error option" where
  "expenses_coerce r =
     (if 50 < length (expenses_row.category r) then Some string_data_right_truncation
      else if 10 ^ 12 \<le> \<bar>expenses_row.amount r\<bar> then Some numeric_value_out_of_range
      else None)"

definition budgets_coerce :: "budgets_row \<Rightarrow> db_error option" where
  "budgets_coerce r =
     (if 50 < length (budgets_row.category r) \<or> 7 < length (month r)
      then Some string_data_right_truncation
      else if 10 ^ 12 \<le> \<bar>budgets_row.amount r\<bar> then Some numeric_value_out_of_range
      else None)"

text \<open>The columns of \<open>UNIQUE(user_id, category, month)\<close>.\<close>

definition budgets_key :: "budgets_row \<Rightarrow> uuid \<times> string \<times> string" where
  "budgets_key r = (user_id r, budgets_row.category r, month r)"

text \<open>
  The constraints of a table, checked for the rows \<open>new\<close> that a statement wrote and the
  table \<open>t\<close> that it would leave: \<open>CHECK (amount > 0)\<close>, the primary key and the
  uniqueness constraint, and the reference to \<open>auth.users\<close>. Uniqueness is checked on the
  table the statement would leave, as the SQL standard has it.
\<close>

definition expenses_constraints ::
  "uuid list \<Rightarrow> expenses_row list \<Rightarrow> expenses_row list \<Rightarrow> db_error option" where
  "expenses_constraints us new t =
     (if \<not> list_all (\<lambda>r. 0 < expenses_row.amount r) new then Some check_violation
      else if \<not> distinct (map row.id t) then Some unique_violation
      else if \<not> list_all (\<lambda>r. user_id r \<in> set us) new then Some foreign_key_violation
      else None)"

definition budgets_constraints ::
  "uuid list \<Rightarrow> budgets_row list \<Rightarrow> budgets_row list \<Rightarrow> db_error option" where
  "budgets_constraints us new t =
     (if \<not> list_all (\<lambda>r. 0 < budgets_row.amount r) new then Some check_violation
      else if \<not> distinct (map row.id t) \<or> \<not> distinct (map budgets_key t) then Some unique_violation
      else if \<not> list_all (\<lambda>r. user_id r \<in> set us) new then Some foreign_key_violation
      else None)"

text \<open>
  The four statements on a table under row-level security, for the caller
  \<open>auth_uid\<close>. A policy without \<open>WITH CHECK\<close> applies its \<open>USING\<close> expression to the
  new row as well; a statement that reads the rows it changes also needs them visible
  under the \<open>SELECT\<close> policy. The policy on the new row is checked before the
  constraints.
\<close>

fun first_error :: "db_error option list \<Rightarrow> db_error option" where
  "first_error [] = None"
| "first_error (Some e # es) = Some e"
| "first_error (None # es) = first_error es"

definition sql_select ::
  "(command \<Rightarrow> uuid option \<Rightarrow> 'r \<Rightarrow> bool) \<Rightarrow> uuid option \<Rightarrow> ('r \<Rightarrow> bool) \<Rightarrow> 'r list \<Rightarrow> 'r list" where
  "sql_select policy auth_uid wh t = filter (\<lambda>r. policy SELECT auth_uid r \<and> wh r) t"

definition sql_insert ::
  "('r \<Rightarrow> db_error option) \<Rightarrow> (command \<Rightarrow> uuid option \<Rightarrow> 'r \<Rightarrow> bool) \<Rightarrow>
   ('r list \<Rightarrow> 'r list \<Rightarrow> db_error option) \<Rightarrow> uuid option \<Rightarrow> 'r \<Rightarrow> 'r list \<Rightarrow> db_error + 'r list" where
  "sql_insert coerce policy constraints auth_uid r t =
     (case coerce r of
        Some e \<Rightarrow> Inl e
      | None \<Rightarrow>
          if \<not> policy INSERT auth_uid r then Inl insufficient_privilege
          else (case constraints [r] (t @ [r]) of
                  Some e \<Rightarrow> Inl e
                | None \<Rightarrow> Inr (t @ [r])))"

definition sql_update ::
  "('r \<Rightarrow> db_error option) \<Rightarrow> (command \<Rightarrow> uuid option \<Rightarrow> 'r \<Rightarrow> bool) \<Rightarrow>
   ('r list \<Rightarrow> 'r list \<Rightarrow> db_error option) \<Rightarrow> uuid option \<Rightarrow> ('r \<Rightarrow> bool) \<Rightarrow> ('r \<Rightarrow> 'r) \<Rightarrow>
   'r list \<Rightarrow> db_error + 'r list" where
  "sql_update coerce policy constraints auth_uid wh upd t =
     (let hit = (\<lambda>r. policy SELECT auth_uid r \<and> policy UPDATE auth_uid r \<and> wh r);
          new = map upd (filter hit t);
          t' = map (\<lambda>r. if hit r then upd r else r) t
      in case first_error (map coerce new) of
           Some e \<Rightarrow> Inl e
         | None \<Rightarrow>
             if \<not> list_all (policy UPDATE auth_uid) new then Inl insufficient_privilege
             else (case constraints new t' of
                     Some e \<Rightarrow> Inl e
                   | None \<Rightarrow> Inr t'))"

definition sql_delete ::
  "(command \<Rightarrow> uuid option \<Rightarrow> 'r \<Rightarrow> bool) \<Rightarrow> uuid option \<Rightarrow> ('r \<Rightarrow> bool) \<Rightarrow> 'r list \<Rightarrow> 'r list" where
  "sql_delete policy auth_uid wh t =
     filter (\<lambda>r. \<not> (policy SELECT auth_uid r \<and> policy DELETE auth_uid r \<and> wh r)) t"

datatype statement =
    select_expenses "expenses_row \<Rightarrow> bool"
  | insert_expenses expenses_row
  | update_expenses "expenses_row \<Rightarrow> bool" "expenses_row \<Rightarrow> expenses_row"
  | delete_expenses "expenses_row \<Rightarrow> bool"
  | select_budgets "budgets_row \<Rightarrow> bool"
  | insert_budgets budgets_row
  | update_budgets "budgets_row \<Rightarrow> bool" "budgets_row \<Rightarrow> budgets_row"
  | delete_budgets "budgets_row \<Rightarrow> bool"

datatype rows = no_rows | expenses_rows "expenses_row list" | budgets_rows "budgets_row list"

text \<open>
  A statement of the caller \<open>auth_uid\<close> on a database: an error, which leaves the
  database as it was, or the rows returned and the database left.
\<close>

fun execute :: "uuid option \<Rightarrow> statement \<Rightarrow> database \<Rightarrow> db_error + rows \<times> database" where
  "execute auth_uid (select_expenses wh) db =
     Inr (expenses_rows (sql_select expenses_policy auth_uid wh (expenses db)), db)"
| "execute auth_uid (insert_expenses r) db =
     (case sql_insert expenses_coerce expenses_policy (expenses_constraints (users db))
             auth_uid r (expenses db) of
        Inl e \<Rightarrow> Inl e
      | Inr t \<Rightarrow> Inr (no_rows, db\<lparr>expenses := t\<rparr>))"
| "execute auth_uid (update_expenses wh upd) db =
     (case sql_update expenses_coerce expenses_policy (expenses_constraints (users db))
             auth_uid wh upd (expenses db) of
        Inl e \<Rightarrow> Inl e
      | Inr t \<Rightarrow> Inr (no_rows, db\<lparr>expenses := t\<rparr>))"
| "execute auth_uid (delete_expenses wh) db =
     Inr (no_rows, db\<lparr>expenses := sql_delete expenses_policy auth_uid wh (expenses db)\<rparr>)"
| "execute auth_uid (select_budgets wh) db =
     Inr (budgets_rows (sql_select budgets_policy auth_uid wh (budgets db)), db)"
| "execute auth_uid (insert_budgets r) db =
     (case sql_insert budgets_coerce budgets_policy (budgets_constraints (users db))
             auth_uid r (budgets db) of
        Inl e \<Rightarrow> Inl e
      | Inr t \<Rightarrow> Inr (no_rows, db\<lparr>budgets := t\<rparr>))"
| "execute auth_uid (update_budgets wh upd) db =
     (case sql_update budgets_coerce budgets_policy (budgets_constraints (users db))
             auth_uid wh upd (budgets db) of
        Inl e \<Rightarrow> Inl e
      | Inr t \<Rightarrow> Inr (no_rows, db\<lparr>budgets := t\<rparr>))"
| "execute auth_uid (delete_budgets wh) db =
     Inr (no_rows, db\<lparr>budgets := sql_delete budgets_policy auth_uid wh (budgets db)\<rparr>)"

text \<open>
  What changes a database: a statement of a caller, and the identity provider adding
  or removing a user; \<open>ON DELETE CASCADE\<close> removes the rows of a removed user.
\<close>

datatype event =
    statement_by "uuid option" statement
  | user_created uuid
  | user_deleted uuid

fun step :: "database \<Rightarrow> event \<Rightarrow> database" where
  "step db (statement_by auth_uid s) =
     (case execute auth_uid s db of Inl _ \<Rightarrow> db | Inr (_, db') \<Rightarrow> db')"
| "step db (user_created u) = (if u \<in> set (users db) then db else db\<lparr>users := users db @ [u]\<rparr>)"
| "step db (user_deleted u) =
     db\<lparr>users := filter (\<lambda>v. v \<noteq> u) (users db),
        expenses := filter (\<lambda>r. user_id r \<noteq> u) (expenses db),
        budgets := filter (\<lambda>r. user_id r \<noteq> u) (budgets db)\<rparr>"

definition empty_database :: database where
  "empty_database = \<lparr>users = [], expenses = [], budgets = []\<rparr>"

definition run :: "event list \<Rightarrow> database" where
  "run events = foldl step empty_database events"

text \<open>At most one budget per (user, category, month).\<close>

definition budgets_unique :: "budgets_row list \<Rightarrow> bool" where
  "budgets_unique t = distinct (map budgets_key t)"

text \<open>The rows of a table that a user owns.\<close>

definition owned_by :: "uuid \<Rightarrow> ('a row_scheme) list \<Rightarrow> ('a row_scheme) list" where
  "owned_by u t = filter (\<lambda>r. user_id r = u) t"

definition rows_owned_by :: "uuid \<Rightarrow> rows \<Rightarrow> bool" where
  "rows_owned_by u res =
     (case res of
        no_rows \<Rightarrow> True
      | expenses_rows t \<Rightarrow> list_all (\<lambda>r. user_id r = u) t
      | budgets_rows t \<Rightarrow> list_all (\<lambda>r. user_id r = u) t)"

text \<open>
  Modelled from the spec: the dashboard aggregation of the API server (not among the
  sources), section 4.1, as far as the total spent and the category breakdown go. For a
  user and a month token it is a single pass over the expenses, which takes those of the
  user whose stored date matches the token and adds each amount to the total and to the
  summed amount of its category; a category with no expenses gets no entry. Amounts are
  the decimals of the table.
\<close>

record dashboard_summary =
  total_spent :: int
  category_breakdown :: "(string \<times> int) list"

definition in_month :: "uuid \<Rightarrow> string \<Rightarrow> expenses_row \<Rightarrow> bool" where
  "in_month uid month_token r = (user_id r = uid \<and> take 7 (expenses_row.date r) = month_token)"

fun add_to_category :: "string \<Rightarrow> int \<Rightarrow> (string \<times> int) list \<Rightarrow> (string \<times> int) list" where
  "add_to_category c a [] = [(c, a)]"
| "add_to_category c a ((c', summed) # rest) =
     (if c' = c then (c', summed + a) # rest else (c', summed) # add_to_category c a rest)"

definition aggregate_expense ::
  "uuid \<Rightarrow> string \<Rightarrow> dashboard_summary \<Rightarrow> expenses_row \<Rightarrow> dashboard_summary" where
  "aggregate_expense uid month_token acc r =
     (if in_month uid month_token r
      then \<lparr>total_spent = total_spent acc + expenses_row.amount r,
            category_breakdown =
              add_to_category (expenses_row.category r) (expenses_row.amount r)
                (category_breakdown acc)\<rparr>
      else acc)"

definition dashboard_aggregation :: "uuid \<Rightarrow> string \<Rightarrow> expenses_row list \<Rightarrow> dashboard_summary" where
  "dashboard_aggregation uid month_token t =
     foldl (aggregate_expense uid month_token) \<lparr>total_spent = 0, category_breakdown = []\<rparr> t"

section \<open>Properties of the month navigation\<close>

lemma digit_not_dash: "is_digit c \<Longrightarrow> c \<noteq> CHR ''-''"
  by (auto simp: is_digit_def digit_chars_def)

lemma month_token_shape:
  assumes "is_month_token s"
  obtains a b c d e f where "s = [a, b, c, d, CHR ''-'', e, f]"
    "is_digit a" "is_digit b" "is_digit c" "is_digit d" "is_digit e" "is_digit f"
proof -
  from assms have len: "length s = 7" by (simp add: is_month_token_def)
  then obtain a b c d x e f where s: "s = [a, b, c, d, x, e, f]"
    by (auto simp: eval_nat_numeral length_Suc_conv)
  with assms show thesis
    by (intro that[of a b c d e f]) (auto simp: is_month_token_def)
qed

text \<open>On a month token the handler reads the year and the month as numbers.\<close>

lemma changeMonth_parsed:
  assumes "is_month_token tok"
  shows "changeMonth delta tok =
     (let newMonth = month_of tok + delta in
      if newMonth > 12 then Some (month_template (Num (year_of tok + 1)) (Num 1))
      else if newMonth < 1 then Some (month_template (Num (year_of tok - 1)) (Num 12))
      else Some (month_template (Num (year_of tok)) (Num newMonth)))"
proof -
  from assms obtain a b c d e f where s: "tok = [a, b, c, d, CHR ''-'', e, f]"
    and dg: "is_digit a" "is_digit b" "is_digit c" "is_digit d" "is_digit e" "is_digit f"
    by (rule month_token_shape)
  from dg have nd: "a \<noteq> CHR ''-''" "b \<noteq> CHR ''-''" "c \<noteq> CHR ''-''" "d \<noteq> CHR ''-''"
    "e \<noteq> CHR ''-''" "f \<noteq> CHR ''-''"
    by (simp_all add: digit_not_dash)
  have sp: "split_js (CHR ''-'') tok = [[a, b, c, d], [e, f]]"
    by (simp add: s nd)
  have ny: "Number_js [a, b, c, d] = Some (Num (year_of tok))"
    by (simp add: Number_js_def dg year_of_def s)
  have nm: "Number_js [e, f] = Some (Num (month_of tok))"
    by (simp add: Number_js_def dg month_of_def s)
  show ?thesis
    by (simp add: changeMonth_def sp ny nm js_gt_def Let_def)
qed

text \<open>
  C1. On every month token \<open>YYYY-MM\<close> with month 01 to 12, \<open>changeMonth(1)\<close> takes
  December of year Y to January of year Y + 1 and any other month to the next month of
  the same year; \<open>changeMonth(-1)\<close> takes January of year Y to December of year Y - 1
  and any other month to the previous month of the same year. The result is the token
  that the template literal prints for that year and month. From \<open>2024-12\<close> one step
  back gives \<open>2024-11\<close> and one step forward gives \<open>2025-01\<close>.
\<close>

theorem changeMonth_rollover:
  assumes "is_month_token tok"
  shows "changeMonth 1 tok =
           Some (if month_of tok = 12 then month_template (Num (year_of tok + 1)) (Num 1)
                 else month_template (Num (year_of tok)) (Num (month_of tok + 1))) \<and>
         changeMonth (- 1) tok =
           Some (if month_of tok = 1 then month_template (Num (year_of tok - 1)) (Num 12)
                 else month_template (Num (year_of tok)) (Num (month_of tok - 1))) \<and>
         changeMonth (- 1) ''2024-12'' = Some ''2024-11'' \<and>
         changeMonth 1 ''2024-12'' = Some ''2025-01''"
proof -
  from assms have rng: "1 \<le> month_of tok" "month_of tok \<le> 12"
    by (simp_all add: is_month_token_def month_of_def)
  have up: "changeMonth 1 tok =
           Some (if month_of tok = 12 then month_template (Num (year_of tok + 1)) (Num 1)
                 else month_template (Num (year_of tok)) (Num (month_of tok + 1)))"
    using rng by (simp add: changeMonth_parsed[OF assms] Let_def)
  have down: "changeMonth (- 1) tok =
           Some (if month_of tok = 1 then month_template (Num (year_of tok - 1)) (Num 12)
                 else month_template (Num (year_of tok)) (Num (month_of tok - 1)))"
    using rng by (simp add: changeMonth_parsed[OF assms] Let_def)
  have ex1: "changeMonth (- 1) ''2024-12'' = Some ''2024-11''" by code_simp
  have ex2: "changeMonth 1 ''2024-12'' = Some ''2025-01''" by code_simp
  from up down ex1 ex2 show ?thesis by simp
qed

theorem changeMonth_rollover_witness:
  "is_month_token ''2023-01'' \<and> changeMonth 1 ''2023-01'' = Some ''2023-02'' \<and>
   changeMonth (- 1) ''2023-01'' = Some ''2022-12''"
proof -
  have h: "is_month_token ''2023-01''" by code_simp
  have m: "month_of ''2023-01'' = 1" by code_simp
  have y: "year_of ''2023-01'' = 2023" by code_simp
  have t1: "month_template (Num 2023) (Num 2) = ''2023-02''" by code_simp
  have t2: "month_template (Num 2022) (Num 12) = ''2022-12''" by code_simp
  from changeMonth_rollover[OF h] h show ?thesis
    by (simp add: m y t1 t2)
qed

subsection \<open>Printing and reading decimal numbers\<close>

lemma digit_cases:
  assumes "n < 10"
  obtains "n = 0" | "n = 1" | "n = 2" | "n = 3" | "n = 4" | "n = 5" | "n = 6" | "n = 7"
    | "n = 8" | "n = (9::nat)"
  using assms by atomize_elim arith

lemma digit_of_is_digit: "n < 10 \<Longrightarrow> is_digit (digit_of n)"
  by (erule digit_cases) (simp_all add: is_digit_def digit_of_def digit_chars_def)

lemma digit_val_digit_of: "n < 10 \<Longrightarrow> digit_val (digit_of n) = n"
  by (erule digit_cases) (simp_all add: digit_val_def digit_of_def digit_chars_def)

lemma digit_val_less: "is_digit c \<Longrightarrow> digit_val c < 10"
  by (auto simp: is_digit_def digit_chars_def digit_val_def)

lemma digit_of_digit_val: "is_digit c \<Longrightarrow> digit_of (digit_val c) = c"
  by (auto simp: is_digit_def digit_chars_def digit_val_def digit_of_def)

lemma digit_val_zero: "is_digit c \<Longrightarrow> digit_val c = 0 \<longleftrightarrow> c = CHR ''0''"
  by (auto simp: is_digit_def digit_chars_def digit_val_def)

lemma dec_value_Nil: "dec_value [] = 0"
  by (simp add: dec_value_def)

lemma dec_value_snoc: "dec_value (s @ [c]) = 10 * dec_value s + digit_val c"
  by (simp add: dec_value_def)

lemma dec_digits_small: "n < 10 \<Longrightarrow> dec_digits n = [digit_of n]"
  by (simp add: dec_digits.simps)

lemma dec_digits_large: "\<not> n < 10 \<Longrightarrow> dec_digits n = dec_digits (n div 10) @ [digit_of (n mod 10)]"
  by (subst dec_digits.simps) simp

lemma dec_digits_all_digits: "list_all is_digit (dec_digits n)"
proof (induction n rule: dec_digits.induct)
  case (1 n)
  show ?case
  proof (cases "n < 10")
    case True
    then show ?thesis by (simp add: dec_digits_small digit_of_is_digit)
  next
    case False
    with 1 show ?thesis by (simp add: dec_digits_large digit_of_is_digit)
  qed
qed

lemma dec_digits_not_Nil: "dec_digits n \<noteq> []"
  by (cases "n < 10") (simp_all add: dec_digits_small dec_digits_large)

lemma dec_value_dec_digits: "dec_value (dec_digits n) = n"
proof (induction n rule: dec_digits.induct)
  case (1 n)
  show ?case
  proof (cases "n < 10")
    case True
    then show ?thesis
      using dec_value_snoc[of "[]"] by (simp add: dec_digits_small dec_value_Nil digit_val_digit_of)
  next
    case False
    with 1 show ?thesis by (simp add: dec_digits_large dec_value_snoc digit_val_digit_of)
  qed
qed

lemma length_dec_digits: "0 < k \<Longrightarrow> n < 10 ^ k \<Longrightarrow> length (dec_digits n) \<le> k"
proof (induction n arbitrary: k rule: dec_digits.induct)
  case (1 n)
  show ?case
  proof (cases "n < 10")
    case True
    with 1(2) show ?thesis by (simp add: dec_digits_small)
  next
    case False
    from False 1(2,3) have k2: "1 < k"
      by (cases "k = 1") auto
    then obtain j where j: "k = Suc j" "0 < j" by (cases k) auto
    from 1(3) j have "n div 10 < 10 ^ j"
      by (simp add: less_mult_imp_div_less mult.commute)
    with 1(1)[OF False j(2)] have "length (dec_digits (n div 10)) \<le> j" by simp
    with False j show ?thesis by (simp add: dec_digits_large)
  qed
qed

lemma dec_value_pos:
  "s \<noteq> [] \<Longrightarrow> list_all is_digit s \<Longrightarrow> hd s \<noteq> CHR ''0'' \<Longrightarrow> 0 < dec_value s"
proof (induction s rule: rev_induct)
  case Nil
  then show ?case by simp
next
  case (snoc c s)
  show ?case
  proof (cases "s = []")
    case True
    with snoc.prems have "digit_val c \<noteq> 0" by (simp add: digit_val_zero)
    with True show ?thesis
      using dec_value_snoc[of "[]" c] by (simp add: dec_value_Nil)
  next
    case False
    with snoc have "0 < dec_value s" by simp
    then show ?thesis by (simp add: dec_value_snoc)
  qed
qed

lemma dec_digits_dec_value:
  "s \<noteq> [] \<Longrightarrow> list_all is_digit s \<Longrightarrow> hd s \<noteq> CHR ''0'' \<Longrightarrow> dec_digits (dec_value s) = s"
proof (induction s rule: rev_induct)
  case Nil
  then show ?case by simp
next
  case (snoc c s)
  from snoc.prems have c: "is_digit c" by simp
  show ?case
  proof (cases "s = []")
    case True
    with c show ?thesis
      using dec_value_snoc[of "[]" c]
      by (simp add: dec_value_Nil dec_digits_small digit_val_less digit_of_digit_val)
  next
    case False
    with snoc.prems have pos: "0 < dec_value s" by (simp add: dec_value_pos)
    from False snoc have ih: "dec_digits (dec_value s) = s" by simp
    from pos have big: "\<not> 10 * dec_value s + digit_val c < 10" by simp
    from c have dv: "digit_val c < 10" by (rule digit_val_less)
    show ?thesis
      using dv by (simp add: dec_value_snoc dec_digits_large[OF big] ih digit_of_digit_val c)
  qed
qed

lemma split_js_no_sep: "c \<notin> set ys \<Longrightarrow> split_js c ys = [ys]"
  by (induction ys) auto

lemma split_js_at_sep: "c \<notin> set xs \<Longrightarrow> split_js c (xs @ c # ys) = xs # split_js c ys"
  by (induction xs) auto

lemma digits_no_dash: "list_all is_digit s \<Longrightarrow> CHR ''-'' \<notin> set s"
  by (auto simp: list_all_iff dest: digit_not_dash)

subsection \<open>Round trip\<close>

text \<open>The two month digits that the template literal prints.\<close>

lemma month_digits:
  assumes "1 \<le> m" "m \<le> (12::nat)"
  shows "\<exists>e f. padStart 2 (CHR ''0'') (dec_digits m) = [e, f] \<and> is_digit e \<and> is_digit f \<and>
           dec_value [e, f] = m"
proof (cases "m < 10")
  case True
  have z: "is_digit (CHR ''0'')" by (simp add: is_digit_def digit_chars_def)
  have "dec_value [CHR ''0'', digit_of m] = digit_val (digit_of m)"
    by (simp add: dec_value_def digit_val_def)
  with True z show ?thesis
    by (simp add: dec_digits_small padStart_def digit_of_is_digit digit_val_digit_of)
next
  case False
  with assms have d: "m div 10 < 10" "m mod 10 < 10" by simp_all
  from False d have dd: "dec_digits m = [digit_of (m div 10), digit_of (m mod 10)]"
    by (simp add: dec_digits_large dec_digits_small)
  have "dec_value (dec_digits m) = m" by (rule dec_value_dec_digits)
  with dd d show ?thesis
    by (simp add: padStart_def digit_of_is_digit)
qed

lemma Number_js_digits:
  "s \<noteq> [] \<Longrightarrow> list_all is_digit s \<Longrightarrow> length s \<le> 15 \<Longrightarrow> Number_js s = Some (Num (int (dec_value s)))"
  by (simp add: Number_js_def)

text \<open>The handler reads back what the template literal printed.\<close>

lemma changeMonth_template:
  assumes y: "0 \<le> y" "y < 10 ^ 15" and m: "1 \<le> m" "m \<le> 12"
  shows "changeMonth delta (month_template (Num y) (Num m)) =
     (let newMonth = m + delta in
      if newMonth > 12 then Some (month_template (Num (y + 1)) (Num 1))
      else if newMonth < 1 then Some (month_template (Num (y - 1)) (Num 12))
      else Some (month_template (Num y) (Num newMonth)))"
proof -
  from m have mn: "1 \<le> nat m" "nat m \<le> 12" by simp_all
  from month_digits[OF mn] obtain e f
    where ef: "padStart 2 (CHR ''0'') (dec_digits (nat m)) = [e, f]"
      "is_digit e" "is_digit f" "dec_value [e, f] = nat m"
    by blast
  let ?ys = "dec_digits (nat y)"
  have ydig: "list_all is_digit ?ys" by (rule dec_digits_all_digits)
  from y have ylen: "length ?ys \<le> 15"
    by (intro length_dec_digits) (simp_all add: nat_less_iff)
  have tpl: "month_template (Num y) (Num m) = ?ys @ CHR ''-'' # [e, f]"
    using y m ef by (simp add: month_template_def)
  have sp: "split_js (CHR ''-'') (?ys @ CHR ''-'' # [e, f]) = [?ys, [e, f]]"
    using ef by (simp add: split_js_at_sep digits_no_dash[OF ydig] split_js_no_sep digit_not_dash)
  have ny: "Number_js ?ys = Some (Num y)"
    using y by (simp add: Number_js_digits[OF dec_digits_not_Nil ydig ylen] dec_value_dec_digits)
  have nm: "Number_js [e, f] = Some (Num m)"
    using ef m by (simp add: Number_js_digits)
  show ?thesis
    by (simp add: changeMonth_def tpl sp ny nm js_gt_def Let_def)
qed

lemma year_digits:
  assumes "1000 \<le> y" "y \<le> (9999::nat)"
  shows "length (dec_digits y) = 4 \<and> hd (dec_digits y) \<noteq> CHR ''0''"
proof -
  let ?a = "y div 1000" and ?b = "y div 100 mod 10" and ?c = "y div 10 mod 10" and ?d = "y mod 10"
  from assms have a: "1 \<le> ?a" "?a < 10" by simp_all
  have s1: "dec_digits y = dec_digits (y div 10) @ [digit_of ?d]"
    using assms by (intro dec_digits_large) simp
  have s2: "dec_digits (y div 10) = dec_digits (y div 100) @ [digit_of ?c]"
    using assms dec_digits_large[of "y div 10"] by (simp add: div_mult2_eq[symmetric])
  have s3: "dec_digits (y div 100) = dec_digits ?a @ [digit_of ?b]"
    using assms dec_digits_large[of "y div 100"] by (simp add: div_mult2_eq[symmetric])
  have s4: "dec_digits ?a = [digit_of ?a]"
    using a by (intro dec_digits_small)
  from a have "digit_of ?a \<noteq> CHR ''0''"
    using digit_val_digit_of[of ?a] by (auto simp: digit_val_def)
  then show ?thesis by (simp add: s1 s2 s3 s4)
qed

lemma month_template_valid:
  assumes y: "1000 \<le> y" "y \<le> 9999" and m: "1 \<le> m" "m \<le> 12"
  shows "is_month_token (month_template (Num y) (Num m)) \<and>
         hd (month_template (Num y) (Num m)) \<noteq> CHR ''0''"
proof -
  from m have mn: "1 \<le> nat m" "nat m \<le> 12" by simp_all
  from month_digits[OF mn] obtain e f
    where ef: "padStart 2 (CHR ''0'') (dec_digits (nat m)) = [e, f]"
      "is_digit e" "is_digit f" "dec_value [e, f] = nat m"
    by blast
  let ?ys = "dec_digits (nat y)"
  from y have yl: "length ?ys = 4" "hd ?ys \<noteq> CHR ''0''"
    using year_digits[of "nat y"] by simp_all
  then obtain a b c d where abcd: "?ys = [a, b, c, d]"
    by (auto simp: eval_nat_numeral length_Suc_conv)
  have ydig: "list_all is_digit ?ys" by (rule dec_digits_all_digits)
  have tpl: "month_template (Num y) (Num m) = [a, b, c, d, CHR ''-'', e, f]"
    using y m ef abcd by (simp add: month_template_def)
  show ?thesis
    using ydig yl ef mn abcd by (simp add: tpl is_month_token_def)
qed

lemma token_canonical:
  assumes "is_month_token tok" "hd tok \<noteq> CHR ''0''"
  shows "month_template (Num (year_of tok)) (Num (month_of tok)) = tok \<and>
         1000 \<le> year_of tok \<and> year_of tok \<le> 9999"
proof -
  from assms(1) obtain a b c d e f where s: "tok = [a, b, c, d, CHR ''-'', e, f]"
    and dg: "is_digit a" "is_digit b" "is_digit c" "is_digit d" "is_digit e" "is_digit f"
    by (rule month_token_shape)
  from assms(2) s have a0: "a \<noteq> CHR ''0''" by simp
  have yd: "dec_digits (dec_value [a, b, c, d]) = [a, b, c, d]"
    using dg a0 by (intro dec_digits_dec_value) simp_all
  from assms(1) s have mr: "1 \<le> dec_value [e, f]" "dec_value [e, f] \<le> 12"
    by (simp_all add: is_month_token_def)
  have md: "padStart 2 (CHR ''0'') (dec_digits (dec_value [e, f])) = [e, f]"
  proof (cases "e = CHR ''0''")
    case True
    have "dec_value [e, f] = digit_val f"
      using True by (simp add: dec_value_def digit_val_def)
    then show ?thesis
      using dg True by (simp add: dec_digits_small digit_val_less digit_of_digit_val padStart_def)
  next
    case False
    then have "dec_digits (dec_value [e, f]) = [e, f]"
      using dg by (intro dec_digits_dec_value) simp_all
    then show ?thesis by (simp add: padStart_def)
  qed
  have tpl: "month_template (Num (year_of tok)) (Num (month_of tok)) = tok"
    by (simp add: month_template_def year_of_def month_of_def s yd md)
  from a0 dg have "1 \<le> digit_val a" using digit_val_zero[of a] by simp
  moreover from dg have "digit_val a < 10" "digit_val b < 10" "digit_val c < 10" "digit_val d < 10"
    by (simp_all add: digit_val_less)
  ultimately have "1000 \<le> year_of tok \<and> year_of tok \<le> 9999"
    by (simp add: year_of_def s dec_value_def)
  with tpl show ?thesis by simp
qed

lemmas month_eval =
  changeMonth_def Number_js_def is_digit_def digit_chars_def dec_value_def digit_val_def
  month_template_def padStart_def dec_digits.simps digit_of_def js_gt_def is_month_token_def

lemma getCurrentMonth_token:
  assumes "1000 \<le> fullYear" "fullYear \<le> 9999" "0 \<le> monthIndex" "monthIndex \<le> 11"
  shows "is_month_token (getCurrentMonth fullYear monthIndex) \<and>
         hd (getCurrentMonth fullYear monthIndex) \<noteq> CHR ''0''"
  unfolding getCurrentMonth_def using assms by (intro month_template_valid) simp_all

text \<open>
  C9, as the code has it. The year is printed without padding, so the claim holds for
  the tokens whose year is written without a leading zero (1000 to 9999; these are the
  tokens \<open>getCurrentMonth\<close> produces): one step forward and then one step back, and
  one step back and then one step forward, return the token; one step forward yields
  such a token again unless the token is \<open>9999-12\<close>, one step back unless it is
  \<open>1000-01\<close>.
\<close>

theorem changeMonth_round_trip:
  assumes "is_month_token tok" and "hd tok \<noteq> CHR ''0''"
  shows "Option.bind (changeMonth 1 tok) (changeMonth (- 1)) = Some tok \<and>
         Option.bind (changeMonth (- 1) tok) (changeMonth 1) = Some tok \<and>
         (tok \<noteq> ''9999-12'' \<longrightarrow>
            (\<exists>t. changeMonth 1 tok = Some t \<and> is_month_token t \<and> hd t \<noteq> CHR ''0'')) \<and>
         (tok \<noteq> ''1000-01'' \<longrightarrow>
            (\<exists>t. changeMonth (- 1) tok = Some t \<and> is_month_token t \<and> hd t \<noteq> CHR ''0''))"
proof -
  define Y where "Y = year_of tok"
  define M where "M = month_of tok"
  from token_canonical[OF assms] have tok: "month_template (Num Y) (Num M) = tok"
    and Y: "1000 \<le> Y" "Y \<le> 9999"
    by (simp_all add: Y_def M_def)
  from assms(1) have M: "1 \<le> M" "M \<le> 12"
    by (simp_all add: is_month_token_def month_of_def M_def)
  have fwd: "changeMonth 1 tok =
      Some (if M = 12 then month_template (Num (Y + 1)) (Num 1)
            else month_template (Num Y) (Num (M + 1)))"
    using M by (simp add: changeMonth_parsed[OF assms(1)] Let_def Y_def M_def)
  have bwd: "changeMonth (- 1) tok =
      Some (if M = 1 then month_template (Num (Y - 1)) (Num 12)
            else month_template (Num Y) (Num (M - 1)))"
    using M by (simp add: changeMonth_parsed[OF assms(1)] Let_def Y_def M_def)
  have back1: "changeMonth (- 1) (month_template (Num (Y + 1)) (Num 1)) = Some (month_template (Num Y) (Num 12))"
    using Y by (subst changeMonth_template) simp_all
  have back2: "M \<noteq> 12 \<Longrightarrow>
      changeMonth (- 1) (month_template (Num Y) (Num (M + 1))) = Some (month_template (Num Y) (Num M))"
    using Y M by (subst changeMonth_template) simp_all
  have forth1: "changeMonth 1 (month_template (Num (Y - 1)) (Num 12)) = Some (month_template (Num Y) (Num 1))"
    using Y by (subst changeMonth_template) simp_all
  have forth2: "M \<noteq> 1 \<Longrightarrow>
      changeMonth 1 (month_template (Num Y) (Num (M - 1))) = Some (month_template (Num Y) (Num M))"
    using Y M by (subst changeMonth_template) simp_all
  have rt1: "Option.bind (changeMonth 1 tok) (changeMonth (- 1)) = Some tok"
    using back1 back2 tok by (cases "M = 12") (simp_all add: fwd)
  have rt2: "Option.bind (changeMonth (- 1) tok) (changeMonth 1) = Some tok"
    using forth1 forth2 tok by (cases "M = 1") (simp_all add: bwd)
  have last: "month_template (Num 9999) (Num 12) = ''9999-12''" by (simp add: month_eval)
  have first: "month_template (Num 1000) (Num 1) = ''1000-01''" by (simp add: month_eval)
  have v1: "\<exists>t. changeMonth 1 tok = Some t \<and> is_month_token t \<and> hd t \<noteq> CHR ''0''"
    if ne: "tok \<noteq> ''9999-12''"
  proof (cases "M = 12")
    case True
    with ne tok last have "Y \<noteq> 9999" by auto
    with Y have "Y + 1 \<le> 9999" by simp
    with Y True show ?thesis
      using month_template_valid[of "Y + 1" 1] by (simp add: fwd)
  next
    case False
    with Y M show ?thesis
      using month_template_valid[of Y "M + 1"] by (simp add: fwd)
  qed
  have v2: "\<exists>t. changeMonth (- 1) tok = Some t \<and> is_month_token t \<and> hd t \<noteq> CHR ''0''"
    if ne: "tok \<noteq> ''1000-01''"
  proof (cases "M = 1")
    case True
    with ne tok first have "Y \<noteq> 1000" by auto
    with Y have "1000 \<le> Y - 1" by simp
    with Y True show ?thesis
      using month_template_valid[of "Y - 1" 12] by (simp add: bwd)
  next
    case False
    with Y M show ?thesis
      using month_template_valid[of Y "M - 1"] by (simp add: bwd)
  qed
  from rt1 rt2 v1 v2 show ?thesis by blast
qed

theorem changeMonth_round_trip_witness:
  "is_month_token ''2024-12'' \<and> hd ''2024-12'' \<noteq> CHR ''0'' \<and>
   ''2024-12'' \<noteq> ''9999-12'' \<and> ''2024-12'' \<noteq> ''1000-01'' \<and>
   Option.bind (changeMonth 1 ''2024-12'') (changeMonth (- 1)) = Some ''2024-12'' \<and>
   Option.bind (changeMonth (- 1) ''2024-12'') (changeMonth 1) = Some ''2024-12'' \<and>
   (\<exists>t. changeMonth 1 ''2024-12'' = Some t \<and> is_month_token t \<and> hd t \<noteq> CHR ''0'') \<and>
   (\<exists>t. changeMonth (- 1) ''2024-12'' = Some t \<and> is_month_token t \<and> hd t \<noteq> CHR ''0'')"
proof -
  have h1: "is_month_token ''2024-12''" by (simp add: month_eval)
  have h2: "hd ''2024-12'' \<noteq> CHR ''0''" by simp
  from changeMonth_round_trip[OF h1 h2] h1 h2 show ?thesis by simp
qed

text \<open>
  With a leading zero in the year the token is not restored, and from \<open>9999-12\<close> one
  step forward leaves the format.
\<close>

theorem changeMonth_round_trip_counterexample:
  "is_month_token ''0999-06'' \<and>
   changeMonth 1 ''0999-06'' = Some ''999-07'' \<and> \<not> is_month_token ''999-07'' \<and>
   Option.bind (changeMonth 1 ''0999-06'') (changeMonth (- 1)) = Some ''999-06'' \<and>
   ''999-06'' \<noteq> ''0999-06'' \<and>
   is_month_token ''9999-12'' \<and>
   changeMonth 1 ''9999-12'' = Some ''10000-01'' \<and> \<not> is_month_token ''10000-01''"
proof -
  have c1: "is_month_token ''0999-06''" by (simp add: month_eval)
  have c2: "changeMonth 1 ''0999-06'' = Some ''999-07''" by (simp add: month_eval)
  have c3: "\<not> is_month_token ''999-07''" by (simp add: month_eval)
  have c4: "changeMonth (- 1) ''999-07'' = Some ''999-06''" by (simp add: month_eval)
  have c6: "is_month_token ''9999-12''" by (simp add: month_eval)
  have c7: "changeMonth 1 ''9999-12'' = Some ''10000-01''" by (simp add: month_eval)
  have c8: "\<not> is_month_token ''10000-01''" by (simp add: month_eval)
  from c1 c2 c3 c4 c6 c7 c8 show ?thesis by simp
qed

section \<open>Properties of the category lookup\<close>

text \<open>
  C10. \<open>getCategoryInfo\<close> returns a record for every string: the entry of
  \<open>CATEGORIES\<close> whose value is the string, if there is one, and otherwise (also for the
  empty string) the last of the eight entries, whose value is \<open>Other\<close>.
\<close>

theorem getCategoryInfo_total:
  "getCategoryInfo s \<in> set CATEGORIES \<and>
   (\<forall>c \<in> set CATEGORIES. value' c = s \<longrightarrow> getCategoryInfo s = c) \<and>
   (s \<notin> set (map value' CATEGORIES) \<longrightarrow> getCategoryInfo s = last CATEGORIES) \<and>
   getCategoryInfo [] = last CATEGORIES \<and>
   value' (last CATEGORIES) = ''Other'' \<and>
   map value' CATEGORIES =
     [''Food'', ''Transport'', ''Entertainment'', ''Bills'', ''Shopping'', ''Health'',
      ''Education'', ''Other'']"
proof -
  have vals: "map value' CATEGORIES =
     [''Food'', ''Transport'', ''Entertainment'', ''Bills'', ''Shopping'', ''Health'',
      ''Education'', ''Other'']"
    by (simp add: CATEGORIES_def)
  have mem: "getCategoryInfo s \<in> set CATEGORIES"
    by (simp add: getCategoryInfo_def CATEGORIES_def)
  have hit: "\<forall>c \<in> set CATEGORIES. value' c = s \<longrightarrow> getCategoryInfo s = c"
    by (auto simp: getCategoryInfo_def CATEGORIES_def)
  have miss: "s \<notin> set (map value' CATEGORIES) \<longrightarrow> getCategoryInfo s = last CATEGORIES"
    by (auto simp: getCategoryInfo_def CATEGORIES_def)
  have empty: "getCategoryInfo [] = last CATEGORIES"
    by (simp add: getCategoryInfo_def CATEGORIES_def)
  have other: "value' (last CATEGORIES) = ''Other''"
    by (simp add: CATEGORIES_def)
  from vals mem hit miss empty other show ?thesis by blast
qed

theorem getCategoryInfo_total_witness:
  "\<lparr>value' = ''Bills'', label = ''Bills'', icon = [CHR 0xF0, CHR 0x9F, CHR 0x93, CHR 0x84],
     color = ''#3b82f6''\<rparr> \<in> set CATEGORIES \<and>
   color (getCategoryInfo ''Bills'') = ''#3b82f6'' \<and>
   ''Rent'' \<notin> set (map value' CATEGORIES) \<and>
   value' (getCategoryInfo ''Rent'') = ''Other''"
proof -
  let ?bills = "\<lparr>value' = ''Bills'', label = ''Bills'',
     icon = [CHR 0xF0, CHR 0x9F, CHR 0x93, CHR 0x84], color = ''#3b82f6''\<rparr>"
  have b: "?bills \<in> set CATEGORIES" by (simp add: CATEGORIES_def)
  have r: "''Rent'' \<notin> set (map value' CATEGORIES)" by (simp add: CATEGORIES_def)
  from getCategoryInfo_total[of "''Bills''"] b have "getCategoryInfo ''Bills'' = ?bills"
    by auto
  moreover from getCategoryInfo_total[of "''Rent''"]
  have "''Rent'' \<notin> set (map value' CATEGORIES) \<longrightarrow> getCategoryInfo ''Rent'' = last CATEGORIES"
    and "value' (last CATEGORIES) = ''Other''"
    by blast+
  with r have "value' (getCategoryInfo ''Rent'') = ''Other''"
    by metis
  ultimately show ?thesis using b r by simp
qed

section \<open>Properties of the budget status\<close>

text \<open>
  C2. \<open>getBudgetStatus\<close> classifies a budget by its percentage \<open>p\<close>: \<open>exceeded\<close> when
  \<open>p \<ge> 100\<close>, \<open>warning\<close> when \<open>80 \<le> p < 100\<close>, and \<open>ok\<close> (no alert) otherwise,
  also when the percentage is not a number. A budget of 1200 with 1000 spent is a
  warning and nothing else, a budget of 500 with 800 spent is exceeded and nothing
  else.
\<close>

theorem getBudgetStatus_thresholds:
  "(percentage_used b = Num p \<longrightarrow>
      getBudgetStatus b =
        (if 100 \<le> p then ''exceeded'' else if 80 \<le> p \<and> p < 100 then ''warning'' else ''ok'')) \<and>
   (percentage_used b = NaN \<longrightarrow> getBudgetStatus b = ''ok'') \<and>
   (percentage_used b = PosInf \<longrightarrow> getBudgetStatus b = ''exceeded'') \<and>
   (percentage_used b = NegInf \<longrightarrow> getBudgetStatus b = ''ok'') \<and>
   getBudgetStatus (b\<lparr>budget.amount := 1200, spent := 1000,
      percentage_used := percentage_of 1000 1200\<rparr>) = ''warning'' \<and>
   getBudgetStatus (b\<lparr>budget.amount := 500, spent := 800,
      percentage_used := percentage_of 800 500\<rparr>) = ''exceeded''"
  by (simp add: getBudgetStatus_def js_ge_def percentage_of_def)

theorem getBudgetStatus_thresholds_witness:
  "getBudgetStatus \<lparr>budget.id = ''b1'', budget.category = ''Food'', budget.amount = 1200,
      spent = 1000, remaining = 200, percentage_used = Num 83\<rparr> = ''warning'' \<and>
   getBudgetStatus \<lparr>budget.id = ''b2'', budget.category = ''Transport'', budget.amount = 500,
      spent = 800, remaining = - 300, percentage_used = Num 160\<rparr> = ''exceeded'' \<and>
   getBudgetStatus \<lparr>budget.id = ''b3'', budget.category = ''Bills'', budget.amount = 100,
      spent = 79, remaining = 21, percentage_used = Num 79\<rparr> = ''ok'' \<and>
   getBudgetStatus \<lparr>budget.id = ''b4'', budget.category = ''Bills'', budget.amount = 100,
      spent = 0, remaining = 100, percentage_used = NaN\<rparr> = ''ok'' \<and>
   getBudgetStatus \<lparr>budget.id = ''b5'', budget.category = ''Health'', budget.amount = 0,
      spent = 5, remaining = - 5, percentage_used = PosInf\<rparr> = ''exceeded'' \<and>
   getBudgetStatus \<lparr>budget.id = ''b6'', budget.category = ''Health'', budget.amount = 0,
      spent = - 5, remaining = 5, percentage_used = NegInf\<rparr> = ''ok''"
  using
    getBudgetStatus_thresholds[of "\<lparr>budget.id = ''b1'', budget.category = ''Food'',
      budget.amount = 1200, spent = 1000, remaining = 200, percentage_used = Num 83\<rparr>" 83]
    getBudgetStatus_thresholds[of "\<lparr>budget.id = ''b2'', budget.category = ''Transport'',
      budget.amount = 500, spent = 800, remaining = - 300, percentage_used = Num 160\<rparr>" 160]
    getBudgetStatus_thresholds[of "\<lparr>budget.id = ''b3'', budget.category = ''Bills'',
      budget.amount = 100, spent = 79, remaining = 21, percentage_used = Num 79\<rparr>" 79]
    getBudgetStatus_thresholds[of "\<lparr>budget.id = ''b4'', budget.category = ''Bills'',
      budget.amount = 100, spent = 0, remaining = 100, percentage_used = NaN\<rparr>" 0]
    getBudgetStatus_thresholds[of "\<lparr>budget.id = ''b5'', budget.category = ''Health'',
      budget.amount = 0, spent = 5, remaining = - 5, percentage_used = PosInf\<rparr>" 0]
    getBudgetStatus_thresholds[of "\<lparr>budget.id = ''b6'', budget.category = ''Health'',
      budget.amount = 0, spent = - 5, remaining = 5, percentage_used = NegInf\<rparr>" 0]
  by simp

section \<open>The percentage of a zero budget\<close>

text \<open>
  Behind the test that the total budget is positive, a total budget of 0 gives 0 for
  every total spent: the figure and the bar of the dashboard and the text of the
  Budgets page.
\<close>

lemma guarded_zero_budget:
  "budgetPercentage None = Num 0 \<and>
   budgetPercentage (Some \<lparr>total_spent_this_month = s, total_budget_this_month = 0\<rparr>) = Num 0 \<and>
   Dashboard_barWidth (Some \<lparr>total_spent_this_month = s, total_budget_this_month = 0\<rparr>) = Num 0 \<and>
   Budgets_percentUsed 0 s = Plain (Num 0)"
  by (simp add: budgetPercentage_def Dashboard_barWidth_def Budgets_percentUsed_def js_gt_def)

text \<open>The bar of the Budgets page is 0 only when nothing was spent.\<close>

lemma Budgets_barWidth_no_budget:
  "Budgets_barWidth 0 0 = Num 0" "0 < s \<Longrightarrow> Budgets_barWidth 0 s = Num 100"
  by (simp_all add: Budgets_barWidth_def js_or_def)

text \<open>
  C5. With a total budget of 0 the percentage of the budget used is to be rendered as 0.
  At a total budget of 0 with 50 spent the dashboard's figure and bar and the text of
  the Budgets page are 0, but the bar of the Budgets page is not: its division is
  carried out, yields infinity, passes \<open>|| 0\<close> and is cut to 100 by \<open>Math.min\<close>.
\<close>

theorem Budgets_barWidth_zero_budget:
  "js_div (Num 50) (Num 0) = PosInf \<and>
   Budgets_barWidth 0 50 = Num 100 \<and>
   Budgets_percentUsed 0 50 = Plain (Num 0) \<and>
   budgetPercentage (Some \<lparr>total_spent_this_month = 50, total_budget_this_month = 0\<rparr>) = Num 0 \<and>
   Dashboard_barWidth (Some \<lparr>total_spent_this_month = 50, total_budget_this_month = 0\<rparr>) = Num 0"
  by (simp add: Budgets_barWidth_def js_or_def budgetPercentage_def Dashboard_barWidth_def
      Budgets_percentUsed_def js_gt_def)

section \<open>Validation before submission\<close>

text \<open>
  C3. When the amount field of the budget form or of the expense form is empty or
  parses to a value \<open>v \<le> 0\<close>, the submit handler reports the validation error and
  returns: its whole trace is the error toast, no request is sent, whatever
  \<open>parseFloat\<close> does on other strings and whatever a request would have answered.
\<close>

theorem handleSubmit_rejects_nonpositive:
  assumes "a = [] \<or> (\<exists>v. parseFloat a = Num v \<and> v \<le> 0)"
    and "Budgets_formData.amount (Budgets_state.formData bs) = a"
    and "Expenses_formData.amount (Expenses_state.formData es) = a"
  shows "Budgets_handleSubmit parseFloat respond bs =
           [preventDefault, toast_error ''Please enter a valid amount''] \<and>
         Expenses_handleSubmit parseFloat respond es =
           [preventDefault, toast_error ''Please enter a valid amount''] \<and>
         \<not> list_ex is_api (Budgets_handleSubmit parseFloat respond bs) \<and>
         \<not> list_ex is_api (Expenses_handleSubmit parseFloat respond es)"
proof -
  from assms(1) have bad: "a = [] \<or> js_le (parseFloat a) (Num 0)"
    by auto
  have b: "Budgets_handleSubmit parseFloat respond bs =
      [preventDefault, toast_error ''Please enter a valid amount'']"
    using bad assms(2) by (auto simp: Budgets_handleSubmit_def Let_def)
  have e: "Expenses_handleSubmit parseFloat respond es =
      [preventDefault, toast_error ''Please enter a valid amount'']"
    using bad assms(3) by (auto simp: Expenses_handleSubmit_def Let_def)
  show ?thesis by (simp add: b e is_api_def)
qed

theorem handleSubmit_rejects_nonpositive_witness:
  "Budgets_handleSubmit (\<lambda>s. if s = ''-5'' then Num (- 5) else NaN) (\<lambda>c. None)
     \<lparr>Budgets_state.month = ''2024-12'', editingBudget = None,
      Budgets_state.formData = \<lparr>Budgets_formData.category = ''Food'',
        Budgets_formData.amount = ''-5''\<rparr>\<rparr> =
     [preventDefault, toast_error ''Please enter a valid amount''] \<and>
   Expenses_handleSubmit (\<lambda>s. if s = ''-5'' then Num (- 5) else NaN) (\<lambda>c. None)
     \<lparr>editingExpense = None,
      Expenses_state.formData = \<lparr>Expenses_formData.amount = ''-5'',
        Expenses_formData.category = ''Food'', Expenses_formData.description = '''',
        Expenses_formData.date = ''2024-12-03''\<rparr>\<rparr> =
     [preventDefault, toast_error ''Please enter a valid amount'']"
proof -
  let ?pf = "\<lambda>s. if s = ''-5'' then Num (- 5) else (NaN :: real number)"
  have h: "''-5'' = [] \<or> (\<exists>v. ?pf ''-5'' = Num v \<and> v \<le> 0)" by simp
  show ?thesis
    using handleSubmit_rejects_nonpositive[where parseFloat = ?pf and a = "''-5''"
        and respond = "\<lambda>c. None"
        and bs = "\<lparr>Budgets_state.month = ''2024-12'', editingBudget = None,
          Budgets_state.formData = \<lparr>Budgets_formData.category = ''Food'',
            Budgets_formData.amount = ''-5''\<rparr>\<rparr>"
        and es = "\<lparr>editingExpense = None,
          Expenses_state.formData = \<lparr>Expenses_formData.amount = ''-5'',
            Expenses_formData.category = ''Food'', Expenses_formData.description = '''',
            Expenses_formData.date = ''2024-12-03''\<rparr>\<rparr>", OF h]
    by simp
qed

section \<open>Properties of the period total\<close>

lemma sum_add_to_category:
  "sum_list (map snd (add_to_category c a xs)) = sum_list (map snd xs) + a"
  by (induction xs) auto

lemma keys_add_to_category:
  "fst ` set (add_to_category c a xs) = insert c (fst ` set xs)"
  by (induction c a xs rule: add_to_category.induct) (simp_all add: insert_commute)

lemma foldl_aggregate_total:
  "total_spent (foldl (aggregate_expense uid m) acc t) =
     total_spent acc + sum_list (map expenses_row.amount (filter (in_month uid m) t))"
  by (induction t arbitrary: acc) (simp_all add: aggregate_expense_def)

lemma foldl_aggregate_breakdown:
  "sum_list (map snd (category_breakdown (foldl (aggregate_expense uid m) acc t))) =
     sum_list (map snd (category_breakdown acc)) +
     sum_list (map expenses_row.amount (filter (in_month uid m) t))"
  by (induction t arbitrary: acc) (simp_all add: aggregate_expense_def sum_add_to_category)

lemma foldl_aggregate_keys:
  "set (map fst (category_breakdown (foldl (aggregate_expense uid m) acc t))) =
     set (map fst (category_breakdown acc)) \<union>
     set (map expenses_row.category (filter (in_month uid m) t))"
  by (induction t arbitrary: acc) (simp_all add: aggregate_expense_def keys_add_to_category)

lemma relabel_in_month:
  "map expenses_row.amount
     (filter (in_month uid m) (map (\<lambda>r. r\<lparr>expenses_row.category := relabel r\<rparr>) t)) =
   map expenses_row.amount (filter (in_month uid m) t)"
  by (induction t) (simp_all add: in_month_def)

lemma totalAmount_snoc:
  "totalAmount add (es @ [e]) = add (totalAmount add es) (expense.amount e)"
  by (simp add: totalAmount_def)

lemma totalAmount_exact:
  assumes "\<forall>k < length es. add (sum_list (map expense.amount (take k es))) (expense.amount (es ! k)) =
             sum_list (map expense.amount (take k es)) + expense.amount (es ! k)"
  shows "totalAmount add es = sum_list (map expense.amount es)"
  using assms
proof (induction es rule: rev_induct)
  case Nil
  then show ?case by (simp add: totalAmount_def)
next
  case (snoc e es)
  have "\<forall>k < length es. add (sum_list (map expense.amount (take k es))) (expense.amount (es ! k)) =
             sum_list (map expense.amount (take k es)) + expense.amount (es ! k)"
  proof (intro allI impI)
    fix k assume k: "k < length es"
    with snoc.prems have "add (sum_list (map expense.amount (take k (es @ [e]))))
        (expense.amount ((es @ [e]) ! k)) =
        sum_list (map expense.amount (take k (es @ [e]))) + expense.amount ((es @ [e]) ! k)"
      by simp
    with k show "add (sum_list (map expense.amount (take k es))) (expense.amount (es ! k)) =
             sum_list (map expense.amount (take k es)) + expense.amount (es ! k)"
      by (simp add: nth_append)
  qed
  with snoc.IH have ih: "totalAmount add es = sum_list (map expense.amount es)" by simp
  have "add (sum_list (map expense.amount (take (length es) (es @ [e]))))
        (expense.amount ((es @ [e]) ! length es)) =
        sum_list (map expense.amount (take (length es) (es @ [e]))) +
        expense.amount ((es @ [e]) ! length es)"
    using snoc.prems[rule_format, of "length es"] by simp
  then have "add (sum_list (map expense.amount es)) (expense.amount e) =
      sum_list (map expense.amount es) + expense.amount e"
    by simp
  with ih show ?case by (simp add: totalAmount_snoc)
qed

text \<open>
  C4. For every user and month, the total spent of the dashboard aggregation is the sum
  of the amounts of that user's expenses dated in that month. It does not depend on how
  they are spread over categories: relabelling the categories leaves it as it is, it is
  the sum of the amounts summed per category, and the categories of the breakdown are
  those of the month's expenses. On the Expenses page the period total is the fold of
  the addition over the amounts of the listed expenses, from 0 and in list order: it
  never reads a category, and where the additions are exact it is the sum of the
  amounts.
\<close>

theorem dashboard_total_is_sum:
  "total_spent (dashboard_aggregation uid m t) =
     sum_list (map expenses_row.amount (filter (in_month uid m) t)) \<and>
   total_spent (dashboard_aggregation uid m (map (\<lambda>r. r\<lparr>expenses_row.category := relabel r\<rparr>) t)) =
     total_spent (dashboard_aggregation uid m t) \<and>
   total_spent (dashboard_aggregation uid m t) =
     sum_list (map snd (category_breakdown (dashboard_aggregation uid m t))) \<and>
   set (map fst (category_breakdown (dashboard_aggregation uid m t))) =
     set (map expenses_row.category (filter (in_month uid m) t)) \<and>
   totalAmount add [] = 0 \<and>
   totalAmount add (es @ [e]) = add (totalAmount add es) (expense.amount e) \<and>
   totalAmount add (map (\<lambda>e. e\<lparr>expense.category := rename e\<rparr>) es) = totalAmount add es \<and>
   ((\<forall>k < length es.
       add (sum_list (map expense.amount (take k es))) (expense.amount (es ! k)) =
       sum_list (map expense.amount (take k es)) + expense.amount (es ! k)) \<longrightarrow>
    totalAmount add es = sum_list (map expense.amount es))"
proof -
  have tot: "total_spent (dashboard_aggregation uid m t) =
     sum_list (map expenses_row.amount (filter (in_month uid m) t))" for t
    by (simp add: dashboard_aggregation_def foldl_aggregate_total)
  have relab: "total_spent (dashboard_aggregation uid m
       (map (\<lambda>r. r\<lparr>expenses_row.category := relabel r\<rparr>) t)) =
     total_spent (dashboard_aggregation uid m t)"
    by (simp only: tot relabel_in_month)
  have grp: "total_spent (dashboard_aggregation uid m t) =
     sum_list (map snd (category_breakdown (dashboard_aggregation uid m t)))"
    by (simp add: tot) (simp add: dashboard_aggregation_def foldl_aggregate_breakdown)
  have keys: "set (map fst (category_breakdown (dashboard_aggregation uid m t))) =
     set (map expenses_row.category (filter (in_month uid m) t))"
    unfolding dashboard_aggregation_def foldl_aggregate_keys by simp
  have empty: "totalAmount add [] = 0"
    by (simp add: totalAmount_def)
  have ren: "totalAmount add (map (\<lambda>e. e\<lparr>expense.category := rename e\<rparr>) es) = totalAmount add es"
    by (simp add: totalAmount_def foldl_map)
  from tot relab grp keys empty totalAmount_snoc ren totalAmount_exact show ?thesis
    by blast
qed

theorem dashboard_total_is_sum_witness:
  "dashboard_aggregation ''alice'' ''2024-12''
     [\<lparr>id = ''e1'', user_id = ''alice'', expenses_row.amount = 100000, expenses_row.category = ''Food'',
       description = None, date = ''2024-12-03'', expenses_row.created_at = Some 1\<rparr>,
      \<lparr>id = ''e2'', user_id = ''bob'', expenses_row.amount = 5000, expenses_row.category = ''Food'',
       description = None, date = ''2024-12-04'', expenses_row.created_at = Some 2\<rparr>,
      \<lparr>id = ''e3'', user_id = ''alice'', expenses_row.amount = 80000, expenses_row.category = ''Transport'',
       description = Some ''bus'', date = ''2024-12-09'', expenses_row.created_at = Some 3\<rparr>,
      \<lparr>id = ''e4'', user_id = ''alice'', expenses_row.amount = 1250, expenses_row.category = ''Food'',
       description = None, date = ''2024-11-30'', expenses_row.created_at = Some 4\<rparr>,
      \<lparr>id = ''e5'', user_id = ''alice'', expenses_row.amount = 1250, expenses_row.category = ''Food'',
       description = None, date = ''2024-12-20'', expenses_row.created_at = Some 5\<rparr>] =
     \<lparr>total_spent = 181250,
      category_breakdown = [(''Food'', 101250), (''Transport'', 80000)]\<rparr> \<and>
   totalAmount (+)
     [\<lparr>expense.id = ''e1'', expense.amount = 1000, expense.category = ''Food'',
       expense.description = None, expense.date = ''2024-12-03''\<rparr>,
      \<lparr>expense.id = ''e3'', expense.amount = 800, expense.category = ''Transport'',
       expense.description = Some ''bus'', expense.date = ''2024-12-09''\<rparr>] = 1800"
proof -
  let ?t = "[\<lparr>id = ''e1'', user_id = ''alice'', expenses_row.amount = 100000, expenses_row.category = ''Food'',
       description = None, date = ''2024-12-03'', expenses_row.created_at = Some 1\<rparr>,
      \<lparr>id = ''e2'', user_id = ''bob'', expenses_row.amount = 5000, expenses_row.category = ''Food'',
       description = None, date = ''2024-12-04'', expenses_row.created_at = Some 2\<rparr>,
      \<lparr>id = ''e3'', user_id = ''alice'', expenses_row.amount = 80000, expenses_row.category = ''Transport'',
       description = Some ''bus'', date = ''2024-12-09'', expenses_row.created_at = Some 3\<rparr>,
      \<lparr>id = ''e4'', user_id = ''alice'', expenses_row.amount = 1250, expenses_row.category = ''Food'',
       description = None, date = ''2024-11-30'', expenses_row.created_at = Some 4\<rparr>,
      \<lparr>id = ''e5'', user_id = ''alice'', expenses_row.amount = 1250, expenses_row.category = ''Food'',
       description = None, date = ''2024-12-20'', expenses_row.created_at = Some 5\<rparr>]"
  let ?es = "[\<lparr>expense.id = ''e1'', expense.amount = 1000, expense.category = ''Food'',
       expense.description = None, expense.date = ''2024-12-03''\<rparr>,
      \<lparr>expense.id = ''e3'', expense.amount = 800, expense.category = ''Transport'',
       expense.description = Some ''bus'', expense.date = ''2024-12-09''\<rparr>]"
  note inst = dashboard_total_is_sum[where uid = "''alice''" and m = "''2024-12''" and t = ?t
      and relabel = "\<lambda>r. ''Other''" and add = "(+)" and es = ?es and e = "hd ?es"
      and rename = "\<lambda>e. ''Other''"]
  have agg: "dashboard_aggregation ''alice'' ''2024-12'' ?t =
     \<lparr>total_spent = 181250,
      category_breakdown = [(''Food'', 101250), (''Transport'', 80000)]\<rparr>"
    by (simp add: dashboard_aggregation_def aggregate_expense_def in_month_def)
  have exact: "\<forall>k < length ?es.
       (sum_list (map expense.amount (take k ?es))) + (expense.amount (?es ! k)) =
       sum_list (map expense.amount (take k ?es)) + expense.amount (?es ! k)"
    by simp
  from inst exact have "totalAmount (+) ?es = sum_list (map expense.amount ?es)"
    by blast
  then have "totalAmount (+) ?es = 1800" by simp
  with agg show ?thesis by simp
qed

section \<open>Outcomes of an API request\<close>




section \<open>Uniqueness of budgets\<close>

lemma budgets_constraints_unique:
  "budgets_constraints us new t = None \<Longrightarrow> budgets_unique t"
  by (auto simp: budgets_constraints_def budgets_unique_def split: if_splits)

lemma sql_insert_budgets_unique:
  "sql_insert coerce policy (budgets_constraints us) auth_uid r t = Inr t' \<Longrightarrow> budgets_unique t'"
  by (auto simp: sql_insert_def budgets_constraints_unique split: option.splits if_splits)

lemma sql_update_budgets_unique:
  "sql_update coerce policy (budgets_constraints us) auth_uid wh upd t = Inr t' \<Longrightarrow>
   budgets_unique t'"
  by (auto simp: sql_update_def Let_def budgets_constraints_unique split: option.splits if_splits)

lemma filter_budgets_unique: "budgets_unique t \<Longrightarrow> budgets_unique (filter P t)"
  by (simp add: budgets_unique_def distinct_map_filter)

lemma execute_budgets_unique:
  assumes "budgets_unique (budgets db)" and "execute auth_uid s db = Inr (res, db')"
  shows "budgets_unique (budgets db')"
proof (cases s)
  case (insert_budgets r)
  with assms(2) show ?thesis
    by (auto split: sum.splits dest: sql_insert_budgets_unique)
next
  case (update_budgets wh upd)
  with assms(2) show ?thesis
    by (auto split: sum.splits dest: sql_update_budgets_unique)
next
  case (delete_budgets wh)
  with assms show ?thesis
    by (auto simp: sql_delete_def filter_budgets_unique)
qed (use assms in \<open>auto split: sum.splits\<close>)

lemma step_budgets_unique:
  assumes "budgets_unique (budgets db)"
  shows "budgets_unique (budgets (step db ev))"
proof (cases ev)
  case (statement_by auth_uid s)
  show ?thesis
  proof (cases "execute auth_uid s db")
    case (Inl e)
    with statement_by assms show ?thesis by simp
  next
    case (Inr p)
    obtain res db' where p: "p = (res, db')" by (cases p)
    with Inr assms have "budgets_unique (budgets db')"
      by (auto dest: execute_budgets_unique)
    with statement_by Inr p show ?thesis by simp
  qed
next
  case (user_created u)
  with assms show ?thesis by simp
next
  case (user_deleted u)
  with assms show ?thesis by (simp add: filter_budgets_unique)
qed

lemma foldl_step_budgets_unique:
  "budgets_unique (budgets db) \<Longrightarrow> budgets_unique (budgets (foldl step db events))"
  by (induction events arbitrary: db) (simp_all add: step_budgets_unique)

lemma insert_duplicate_rejected:
  assumes "budgets_key r \<in> set (map budgets_key (budgets db))"
  shows "\<exists>e. execute auth_uid (insert_budgets r) db = Inl e"
proof -
  from assms have "\<not> distinct (map budgets_key (budgets db @ [r]))"
    by simp
  then have "budgets_constraints (users db) [r] (budgets db @ [r]) \<noteq> None"
    by (simp add: budgets_constraints_def)
  then show ?thesis
    by (auto simp: sql_insert_def split: option.splits)
qed

text \<open>
  C6. In every database reached from the empty one by statements of callers and by
  the identity provider adding and removing users, no two budget rows agree on
  (user, category, month). A statement that inserts a budget whose (user, category,
  month) is already there is rejected with an error, and every single step keeps the
  invariant. On the Budgets page, while no budget is being edited, the categories
  offered for a new budget are those without a budget in the displayed month.
\<close>

theorem budgets_unique_invariant:
  "budgets_unique (budgets (run events)) \<and>
   (budgets_unique (budgets db) \<longrightarrow> budgets_unique (budgets (step db ev))) \<and>
   (budgets_key r \<in> set (map budgets_key (budgets db)) \<longrightarrow>
      (\<exists>e. execute auth_uid (insert_budgets r) db = Inl e) \<and>
      step db (statement_by auth_uid (insert_budgets r)) = db) \<and>
   (\<forall>c \<in> set (availableCategories shown None). value' c \<notin> set (usedCategories shown))"
proof -
  have inv: "budgets_unique (budgets (run events))"
    unfolding run_def
    by (rule foldl_step_budgets_unique) (simp add: empty_database_def budgets_unique_def)
  have dup: "budgets_key r \<in> set (map budgets_key (budgets db)) \<longrightarrow>
      (\<exists>e. execute auth_uid (insert_budgets r) db = Inl e) \<and>
      step db (statement_by auth_uid (insert_budgets r)) = db"
  proof
    assume "budgets_key r \<in> set (map budgets_key (budgets db))"
    from insert_duplicate_rejected[OF this, of auth_uid]
    obtain e where e: "execute auth_uid (insert_budgets r) db = Inl e" ..
    have "step db (statement_by auth_uid (insert_budgets r)) = db"
      unfolding step.simps e by simp
    with e show "(\<exists>e. execute auth_uid (insert_budgets r) db = Inl e) \<and>
      step db (statement_by auth_uid (insert_budgets r)) = db" by blast
  qed
  have ui: "\<forall>c \<in> set (availableCategories shown None). value' c \<notin> set (usedCategories shown)"
    by (simp add: availableCategories_def)
  from inv dup ui show ?thesis
    by (simp add: step_budgets_unique)
qed

lemmas store_eval =
  run_def empty_database_def sql_insert_def sql_update_def sql_delete_def sql_select_def
  budgets_coerce_def budgets_constraints_def budgets_key_def budgets_unique_def
  expenses_coerce_def expenses_constraints_def owned_by_def rows_owned_by_def

theorem budgets_unique_invariant_witness:
  "budgets (run [user_created ''alice'',
      statement_by (Some ''alice'') (insert_budgets
        \<lparr>id = ''b1'', user_id = ''alice'', category = ''Food'', amount = 120000,
         month = ''2024-12'', created_at = Some 1\<rparr>),
      statement_by (Some ''alice'') (insert_budgets
        \<lparr>id = ''b2'', user_id = ''alice'', category = ''Food'', amount = 50000,
         month = ''2024-12'', created_at = Some 2\<rparr>)]) =
     [\<lparr>id = ''b1'', user_id = ''alice'', category = ''Food'', amount = 120000,
       month = ''2024-12'', created_at = Some 1\<rparr>] \<and>
   budgets_unique (budgets (run [user_created ''alice'',
      statement_by (Some ''alice'') (insert_budgets
        \<lparr>id = ''b1'', user_id = ''alice'', category = ''Food'', amount = 120000,
         month = ''2024-12'', created_at = Some 1\<rparr>),
      statement_by (Some ''alice'') (insert_budgets
        \<lparr>id = ''b2'', user_id = ''alice'', category = ''Food'', amount = 50000,
         month = ''2024-12'', created_at = Some 2\<rparr>)])) \<and>
   (\<exists>e. execute (Some ''alice'') (insert_budgets
        \<lparr>id = ''b2'', user_id = ''alice'', category = ''Food'', amount = 50000,
         month = ''2024-12'', created_at = Some 2\<rparr>)
      \<lparr>users = [''alice''], expenses = [],
       budgets = [\<lparr>id = ''b1'', user_id = ''alice'', category = ''Food'', amount = 120000,
         month = ''2024-12'', created_at = Some 1\<rparr>]\<rparr> = Inl e) \<and>
   budgets_unique (budgets (step
      \<lparr>users = [''alice''], expenses = [],
       budgets = [\<lparr>id = ''b1'', user_id = ''alice'', category = ''Food'', amount = 120000,
         month = ''2024-12'', created_at = Some 1\<rparr>]\<rparr>
      (statement_by (Some ''alice'') (insert_budgets
        \<lparr>id = ''b2'', user_id = ''alice'', category = ''Food'', amount = 50000,
         month = ''2024-12'', created_at = Some 2\<rparr>)))) \<and>
   \<lparr>value' = ''Transport'', label = ''Transport'',
     icon = [CHR 0xF0, CHR 0x9F, CHR 0x9A, CHR 0x97], color = ''#f59e0b''\<rparr>
     \<in> set (availableCategories
         [\<lparr>budget.id = ''b1'', budget.category = ''Food'', budget.amount = 1200, spent = 1000,
           remaining = 200, percentage_used = Num 83\<rparr>] None) \<and>
   ''Transport'' \<notin> set (usedCategories
         [\<lparr>budget.id = ''b1'', budget.category = ''Food'', budget.amount = 1200, spent = 1000,
           remaining = 200, percentage_used = Num 83\<rparr>])"
proof -
  let ?b1 = "\<lparr>id = ''b1'', user_id = ''alice'', category = ''Food'', amount = 120000,
         month = ''2024-12'', created_at = Some 1\<rparr>"
  let ?b2 = "\<lparr>id = ''b2'', user_id = ''alice'', category = ''Food'', amount = 50000,
         month = ''2024-12'', created_at = Some 2\<rparr>"
  let ?db = "\<lparr>users = [''alice''], expenses = [], budgets = [?b1]\<rparr>"
  let ?evs = "[user_created ''alice'', statement_by (Some ''alice'') (insert_budgets ?b1),
      statement_by (Some ''alice'') (insert_budgets ?b2)]"
  let ?shown = "[\<lparr>budget.id = ''b1'', budget.category = ''Food'', budget.amount = 1200,
      spent = 1000, remaining = 200, percentage_used = Num 83\<rparr>]"
  let ?c = "\<lparr>value' = ''Transport'', label = ''Transport'',
     icon = [CHR 0xF0, CHR 0x9F, CHR 0x9A, CHR 0x97], color = ''#f59e0b''\<rparr>"
  note inst = budgets_unique_invariant[where events = ?evs and db = ?db and r = ?b2
      and auth_uid = "Some ''alice''" and shown = ?shown
      and ev = "statement_by (Some ''alice'') (insert_budgets ?b2)"]
  have run: "budgets (run ?evs) = [?b1]"
    by (simp add: store_eval)
  have key: "budgets_key ?b2 \<in> set (map budgets_key (budgets ?db))"
    by (simp add: budgets_key_def)
  have avail: "?c \<in> set (availableCategories ?shown None)"
    by (simp add: availableCategories_def usedCategories_def CATEGORIES_def)
  from inst have u: "budgets_unique (budgets (run ?evs))" by blast
  from inst key have rej: "\<exists>e. execute (Some ''alice'') (insert_budgets ?b2) ?db = Inl e"
    by blast
  from inst avail have "value' ?c \<notin> set (usedCategories ?shown)" by blast
  then have free: "''Transport'' \<notin> set (usedCategories ?shown)" by simp
  have before: "budgets_unique (budgets ?db)"
    by (simp add: budgets_unique_def)
  with inst have after: "budgets_unique (budgets (step ?db
      (statement_by (Some ''alice'') (insert_budgets ?b2))))"
    by blast
  from run u rej after avail free show ?thesis by blast
qed

section \<open>Isolation by row-level security\<close>

lemma expenses_policy_owner: "expenses_policy c (Some A) r \<longleftrightarrow> user_id r = A"
  by (cases c) auto

lemma budgets_policy_owner: "budgets_policy c (Some A) r \<longleftrightarrow> user_id r = A"
  by (cases c) auto

lemma filter_map_others:
  assumes "\<And>r. r \<in> set t \<Longrightarrow> g r \<noteq> r \<Longrightarrow> user_id r \<noteq> B \<and> user_id (g r) \<noteq> B"
  shows "owned_by B (map g t) = owned_by B t"
  using assms
proof (induction t)
  case Nil
  then show ?case by (simp add: owned_by_def)
next
  case (Cons r t)
  from Cons.prems have ih: "owned_by B (map g t) = owned_by B t"
    by (intro Cons.IH) auto
  show ?case
  proof (cases "g r = r")
    case True
    with ih show ?thesis by (simp add: owned_by_def)
  next
    case False
    with Cons.prems[of r] have "user_id r \<noteq> B" "user_id (g r) \<noteq> B" by simp_all
    with ih show ?thesis by (simp add: owned_by_def)
  qed
qed

lemma sql_select_owned:
  assumes "\<And>c r. policy c (Some A) r \<Longrightarrow> user_id r = A"
  shows "list_all (\<lambda>r. user_id r = A) (sql_select policy (Some A) wh t)"
  using assms by (auto simp: sql_select_def list_all_iff)

lemma sql_insert_others:
  assumes "\<And>c r. policy c (Some A) r \<Longrightarrow> user_id r = A" and "A \<noteq> B"
    and "sql_insert coerce policy constraints (Some A) r t = Inr t'"
  shows "owned_by B t' = owned_by B t"
proof -
  from assms(3) have "policy INSERT (Some A) r" and t': "t' = t @ [r]"
    by (auto simp: sql_insert_def split: option.splits if_splits)
  with assms(1,2) have "user_id r \<noteq> B" by auto
  with t' show ?thesis by (simp add: owned_by_def)
qed

lemma sql_update_others:
  assumes pol: "\<And>c r. policy c (Some A) r \<Longrightarrow> user_id r = A" and ne: "A \<noteq> B"
    and upd: "sql_update coerce policy constraints (Some A) wh upd t = Inr t'"
  shows "owned_by B t' = owned_by B t"
proof -
  let ?hit = "\<lambda>r. policy SELECT (Some A) r \<and> policy UPDATE (Some A) r \<and> wh r"
  from upd have chk: "list_all (policy UPDATE (Some A)) (map upd (filter ?hit t))"
    and t': "t' = map (\<lambda>r. if ?hit r then upd r else r) t"
    by (auto simp: sql_update_def Let_def split: option.splits if_splits)
  have "owned_by B (map (\<lambda>r. if ?hit r then upd r else r) t) = owned_by B t"
  proof (rule filter_map_others)
    fix r
    assume r: "r \<in> set t" and ch: "(if ?hit r then upd r else r) \<noteq> r"
    then have hit: "?hit r" by (auto split: if_splits)
    with r chk have "policy UPDATE (Some A) (upd r)"
      by (auto simp: list_all_iff)
    with hit pol ne show "user_id r \<noteq> B \<and> user_id (if ?hit r then upd r else r) \<noteq> B"
      by auto
  qed
  with t' show ?thesis by simp
qed

lemma sql_delete_others:
  assumes "\<And>c r. policy c (Some A) r \<Longrightarrow> user_id r = A" and "A \<noteq> B"
  shows "owned_by B (sql_delete policy (Some A) wh t) = owned_by B t"
  using assms by (auto simp: sql_delete_def owned_by_def intro!: filter_cong)

lemma execute_isolation:
  assumes ne: "A \<noteq> B" and ex: "execute (Some A) s db = Inr (res, db')"
  shows "rows_owned_by A res \<and>
         owned_by B (expenses db') = owned_by B (expenses db) \<and>
         owned_by B (budgets db') = owned_by B (budgets db)"
proof -
  have pe: "\<And>c r. expenses_policy c (Some A) r \<Longrightarrow> user_id r = A"
    by (simp add: expenses_policy_owner)
  have pb: "\<And>c r. budgets_policy c (Some A) r \<Longrightarrow> user_id r = A"
    by (simp add: budgets_policy_owner)
  show ?thesis
  proof (cases s)
    case (select_expenses wh)
    with ex show ?thesis
      using sql_select_owned[of expenses_policy A wh "expenses db", OF pe]
      by (auto simp: rows_owned_by_def)
  next
    case (insert_expenses r)
    with ex obtain t where t: "sql_insert expenses_coerce expenses_policy (expenses_constraints (users db))
        (Some A) r (expenses db) = Inr t" and r: "res = no_rows" "db' = db\<lparr>expenses := t\<rparr>"
      by (auto split: sum.splits)
    from sql_insert_others[OF pe ne t] r show ?thesis
      by (simp add: rows_owned_by_def)
  next
    case (update_expenses wh upd)
    with ex obtain t where t: "sql_update expenses_coerce expenses_policy (expenses_constraints (users db))
        (Some A) wh upd (expenses db) = Inr t" and r: "res = no_rows" "db' = db\<lparr>expenses := t\<rparr>"
      by (auto split: sum.splits)
    from sql_update_others[OF pe ne t] r show ?thesis
      by (simp add: rows_owned_by_def)
  next
    case (delete_expenses wh)
    with ex show ?thesis
      using sql_delete_others[of expenses_policy A B wh "expenses db", OF pe ne]
      by (auto simp: rows_owned_by_def)
  next
    case (select_budgets wh)
    with ex show ?thesis
      using sql_select_owned[of budgets_policy A wh "budgets db", OF pb]
      by (auto simp: rows_owned_by_def)
  next
    case (insert_budgets r)
    with ex obtain t where t: "sql_insert budgets_coerce budgets_policy (budgets_constraints (users db))
        (Some A) r (budgets db) = Inr t" and r: "res = no_rows" "db' = db\<lparr>budgets := t\<rparr>"
      by (auto split: sum.splits)
    from sql_insert_others[OF pb ne t] r show ?thesis
      by (simp add: rows_owned_by_def)
  next
    case (update_budgets wh upd)
    with ex obtain t where t: "sql_update budgets_coerce budgets_policy (budgets_constraints (users db))
        (Some A) wh upd (budgets db) = Inr t" and r: "res = no_rows" "db' = db\<lparr>budgets := t\<rparr>"
      by (auto split: sum.splits)
    from sql_update_others[OF pb ne t] r show ?thesis
      by (simp add: rows_owned_by_def)
  next
    case (delete_budgets wh)
    with ex show ?thesis
      using sql_delete_others[of budgets_policy A B wh "budgets db", OF pb ne]
      by (auto simp: rows_owned_by_def)
  qed
qed

text \<open>
  C7. Each of the eight policies admits a row for a caller exactly when the row's
  \<open>user_id\<close> is the caller's identity, and admits none without an identity. Hence for
  distinct users A and B and any statement of A on either table, with any condition and
  any new values: the rows returned all belong to A, and B's rows in both tables are the
  same after the statement as before, whether it succeeds or fails.
\<close>

theorem row_level_isolation:
  assumes "A \<noteq> B"
  shows "(expenses_policy c (Some A) er \<longleftrightarrow> user_id er = A) \<and>
         (budgets_policy c (Some A) br \<longleftrightarrow> user_id br = A) \<and>
         \<not> expenses_policy c None er \<and> \<not> budgets_policy c None br \<and>
         (\<forall>res db'. execute (Some A) s db = Inr (res, db') \<longrightarrow> rows_owned_by A res) \<and>
         owned_by B (expenses (step db (statement_by (Some A) s))) = owned_by B (expenses db) \<and>
         owned_by B (budgets (step db (statement_by (Some A) s))) = owned_by B (budgets db)"
proof -
  have none: "\<not> expenses_policy c None er \<and> \<not> budgets_policy c None br"
    by (cases c) simp_all
  have sel: "\<forall>res db'. execute (Some A) s db = Inr (res, db') \<longrightarrow> rows_owned_by A res"
    using execute_isolation[OF assms] by blast
  have keep: "owned_by B (expenses (step db (statement_by (Some A) s))) = owned_by B (expenses db) \<and>
      owned_by B (budgets (step db (statement_by (Some A) s))) = owned_by B (budgets db)"
  proof (cases "execute (Some A) s db")
    case (Inl e)
    then show ?thesis by simp
  next
    case (Inr p)
    obtain res db' where p: "p = (res, db')" by (cases p)
    from execute_isolation[OF assms, of s db res db'] Inr p show ?thesis by simp
  qed
  from none sel keep show ?thesis
    by (simp add: expenses_policy_owner budgets_policy_owner)
qed

theorem row_level_isolation_witness:
  "''alice'' \<noteq> ''bob'' \<and>
   rows_owned_by ''alice''
     (budgets_rows [\<lparr>id = ''b1'', user_id = ''alice'', category = ''Food'', amount = 120000,
                  month = ''2024-12'', created_at = Some 1\<rparr>]) \<and>
   execute (Some ''alice'') (select_budgets (\<lambda>r. True))
     \<lparr>users = [''alice'', ''bob''], expenses = [],
      budgets = [\<lparr>id = ''b1'', user_id = ''alice'', category = ''Food'', amount = 120000,
                  month = ''2024-12'', created_at = Some 1\<rparr>,
                 \<lparr>id = ''b2'', user_id = ''bob'', category = ''Food'', amount = 50000,
                  month = ''2024-12'', created_at = Some 2\<rparr>]\<rparr> =
     Inr (budgets_rows [\<lparr>id = ''b1'', user_id = ''alice'', category = ''Food'', amount = 120000,
                  month = ''2024-12'', created_at = Some 1\<rparr>],
          \<lparr>users = [''alice'', ''bob''], expenses = [],
           budgets = [\<lparr>id = ''b1'', user_id = ''alice'', category = ''Food'', amount = 120000,
                  month = ''2024-12'', created_at = Some 1\<rparr>,
                 \<lparr>id = ''b2'', user_id = ''bob'', category = ''Food'', amount = 50000,
                  month = ''2024-12'', created_at = Some 2\<rparr>]\<rparr>) \<and>
   owned_by ''bob'' (budgets (step
     \<lparr>users = [''alice'', ''bob''], expenses = [],
      budgets = [\<lparr>id = ''b1'', user_id = ''alice'', category = ''Food'', amount = 120000,
                  month = ''2024-12'', created_at = Some 1\<rparr>,
                 \<lparr>id = ''b2'', user_id = ''bob'', category = ''Food'', amount = 50000,
                  month = ''2024-12'', created_at = Some 2\<rparr>]\<rparr>
     (statement_by (Some ''alice'') (delete_budgets (\<lambda>r. True))))) =
     [\<lparr>id = ''b2'', user_id = ''bob'', category = ''Food'', amount = 50000,
       month = ''2024-12'', created_at = Some 2\<rparr>]"
proof -
  let ?a = "\<lparr>id = ''b1'', user_id = ''alice'', category = ''Food'', amount = 120000,
                  month = ''2024-12'', created_at = Some 1\<rparr>"
  let ?b = "\<lparr>id = ''b2'', user_id = ''bob'', category = ''Food'', amount = 50000,
                  month = ''2024-12'', created_at = Some 2\<rparr>"
  let ?db = "\<lparr>users = [''alice'', ''bob''], expenses = [], budgets = [?a, ?b]\<rparr>"
  have ne: "''alice'' \<noteq> ''bob''" by simp
  have sel: "execute (Some ''alice'') (select_budgets (\<lambda>r. True)) ?db =
      Inr (budgets_rows [?a], ?db)"
    by (simp add: sql_select_def)
  from row_level_isolation[OF ne, where s = "select_budgets (\<lambda>r. True)" and db = ?db] sel
  have own: "rows_owned_by ''alice'' (budgets_rows [?a])" by blast
  have before: "owned_by ''bob'' (budgets ?db) = [?b]"
    by (simp add: owned_by_def)
  from row_level_isolation[OF ne, where s = "delete_budgets (\<lambda>r. True)" and db = ?db]
  have "owned_by ''bob'' (budgets (step ?db
      (statement_by (Some ''alice'') (delete_budgets (\<lambda>r. True))))) =
      owned_by ''bob'' (budgets ?db)"
    by blast
  with before sel ne own show ?thesis by simp
qed

end
